theory Spec2Isabelle
  imports Complex_Main "HOL-Library.AList" "HOL-Library.Char_ord" "HOL-Library.List_Lexorder"
    "HOL-Library.Multiset"
begin

section \<open>Python values shared by the three modules\<close>

text \<open>
  Elevations, heights and dimension values are Python floats, modelled by the reals: every
  finite float is a real number and comparison, \<open>min\<close>, \<open>max\<close> and \<open>abs\<close> are exact on
  them; rounding of \<open>+\<close>, \<open>-\<close> and \<open>/\<close> is left out.  The vertex coordinates of the geometry
  kernel are modelled twice: as reals, and as IEEE values with the infinities and NaN.
\<close>

datatype py_error = ValueError | IndexError | ExternalError

subsection \<open>Strings\<close>

text \<open>\<open>str(n)\<close> for an \<open>int\<close>, as the f-strings \<open>f'level_{level_id}_count'\<close> and
  \<open>f'{product.is_a()}_{product.id()}'\<close> render it.\<close>

definition digit_char :: "nat \<Rightarrow> char" where
  "digit_char d = ''0123456789'' ! (d mod 10)"

fun str_nat :: "nat \<Rightarrow> string" where
  "str_nat n = (if n < 10 then [digit_char n] else str_nat (n div 10) @ [digit_char (n mod 10)])"

definition str_int :: "int \<Rightarrow> string" where
  "str_int i = (if i < 0 then CHR ''-'' # str_nat (nat (- i)) else str_nat (nat i))"

text \<open>\<open>int(s)\<close> on an optional sign followed by decimal digits; \<open>None\<close> is ValueError.
  (Python also accepts surrounding white space and single underscores between digits; the
  strings parsed here are pieces of a \<open>split('_')\<close> of keys written by \<open>str\<close>.)\<close>

definition digit_of :: "char \<Rightarrow> nat option" where
  "digit_of c = (if CHR ''0'' \<le> c \<and> c \<le> CHR ''9'' then Some (of_char c - 48) else None)"

fun parse_digits :: "nat \<Rightarrow> string \<Rightarrow> nat option" where
  "parse_digits acc [] = Some acc"
| "parse_digits acc (c # cs) =
     (case digit_of c of None \<Rightarrow> None | Some d \<Rightarrow> parse_digits (acc * 10 + d) cs)"

definition parse_nat :: "string \<Rightarrow> nat option" where
  "parse_nat s = (if s = [] then None else parse_digits 0 s)"

fun py_int :: "string \<Rightarrow> int option" where
  "py_int [] = None"
| "py_int (c # cs) =
     (if c = CHR ''-'' then map_option (\<lambda>n. - int n) (parse_nat cs)
      else if c = CHR ''+'' then map_option int (parse_nat cs)
      else map_option int (parse_nat (c # cs)))"

text \<open>\<open>s.split(sep)\<close> with a one-character separator\<close>

fun py_split :: "char \<Rightarrow> string \<Rightarrow> string list" where
  "py_split sep [] = [[]]"
| "py_split sep (c # cs) =
     (if c = sep then [] # py_split sep cs
      else (case py_split sep cs of
              [] \<Rightarrow> [[c]]
            | w # ws \<Rightarrow> (c # w) # ws))"

definition startswith :: "string \<Rightarrow> string \<Rightarrow> bool" where
  "startswith s p = (take (length p) s = p)"

definition endswith :: "string \<Rightarrow> string \<Rightarrow> bool" where
  "endswith s p = (length p \<le> length s \<and> drop (length s - length p) s = p)"

text \<open>\<open>sep.join(parts)\<close>\<close>

fun py_join :: "string \<Rightarrow> string list \<Rightarrow> string" where
  "py_join sep [] = []"
| "py_join sep [x] = x"
| "py_join sep (x # y # r) = x @ sep @ py_join sep (y # r)"





text \<open>\<open>xs[i]\<close> for \<open>i \<ge> 0\<close>\<close>

definition py_index :: "'a list \<Rightarrow> nat \<Rightarrow> py_error + 'a" where
  "py_index xs i = (if i < length xs then Inr (xs ! i) else Inl IndexError)"

subsection \<open>Dictionaries\<close>

text \<open>
  A \<open>dict\<close> is an association list with distinct keys in insertion order:
  \<open>d[k] = v\<close> is \<^const>\<open>AList.update\<close> (an existing key keeps its place, a new key goes to
  the end), \<open>d.get(k)\<close> is \<^const>\<open>map_of\<close>, \<open>d.values()\<close> is \<open>map snd\<close>.
\<close>

type_synonym ('k, 'v) dict = "('k \<times> 'v) list"

definition dict_get :: "('k, 'v) dict \<Rightarrow> 'k \<Rightarrow> 'v \<Rightarrow> 'v" where
  "dict_get d k dflt = (case map_of d k of None \<Rightarrow> dflt | Some v \<Rightarrow> v)"

definition dict_values :: "('k, 'v) dict \<Rightarrow> 'v list" where
  "dict_values d = map snd d"

text \<open>Truthiness of \<open>None\<close>-or-\<open>str\<close> and \<open>None\<close>-or-\<open>int\<close> values\<close>

fun truthy_str :: "string option \<Rightarrow> bool" where
  "truthy_str None = False"
| "truthy_str (Some s) = (s \<noteq> [])"

text \<open>\<open>x or y\<close> for a \<open>None\<close>-or-\<open>str\<close> \<open>x\<close>\<close>

fun str_or :: "string option \<Rightarrow> string \<Rightarrow> string" where
  "str_or None y = y"
| "str_or (Some s) y = (if s \<noteq> [] then s else y)"

section \<open>geometry_extractor.py: the bounding box on finite coordinates\<close>

type_synonym vec3 = "real \<times> real \<times> real"

record bbox =
  bb_min :: vec3
  bb_max :: vec3
  bb_center :: vec3
  bb_size :: vec3

definition MIN_SIZE_THRESHOLD :: real where
  "MIN_SIZE_THRESHOLD = 1 / 1000"

text \<open>\<open>np.array(verts).reshape(-1, 3)\<close>: rows of three; a length that is no multiple of
  three raises.\<close>

fun reshape3 :: "real list \<Rightarrow> py_error + vec3 list" where
  "reshape3 [] = Inr []"
| "reshape3 (x # y # z # r) =
     (case reshape3 r of Inl e \<Rightarrow> Inl e | Inr vs \<Rightarrow> Inr ((x, y, z) # vs))"
| "reshape3 _ = Inl ValueError"

text \<open>\<open>transformed_verts[:, [1, 2]] = transformed_verts[:, [2, 1]]\<close>\<close>

fun swap_columns_1_2 :: "vec3 \<Rightarrow> vec3" where
  "swap_columns_1_2 (x, y, z) = (x, z, y)"

fun vmin :: "vec3 \<Rightarrow> vec3 \<Rightarrow> vec3" where
  "vmin (a, b, c) (x, y, z) = (min a x, min b y, min c z)"

fun vmax :: "vec3 \<Rightarrow> vec3 \<Rightarrow> vec3" where
  "vmax (a, b, c) (x, y, z) = (max a x, max b y, max c z)"

text \<open>\<open>a.min(axis=0)\<close> and \<open>a.max(axis=0)\<close>: the reduction of an array with no row raises.\<close>

fun min_axis0 :: "vec3 list \<Rightarrow> py_error + vec3" where
  "min_axis0 [] = Inl ValueError"
| "min_axis0 (v # vs) = Inr (foldl vmin v vs)"

fun max_axis0 :: "vec3 list \<Rightarrow> py_error + vec3" where
  "max_axis0 [] = Inl ValueError"
| "max_axis0 (v # vs) = Inr (foldl vmax v vs)"

fun vsub :: "vec3 \<Rightarrow> vec3 \<Rightarrow> vec3" where
  "vsub (a, b, c) (x, y, z) = (a - x, b - y, c - z)"

fun vadd :: "vec3 \<Rightarrow> vec3 \<Rightarrow> vec3" where
  "vadd (a, b, c) (x, y, z) = (a + x, b + y, c + z)"

fun vhalf :: "vec3 \<Rightarrow> vec3" where
  "vhalf (a, b, c) = (a / 2, b / 2, c / 2)"

text \<open>\<open>np.maximum(v, t)\<close> with a scalar \<open>t\<close>\<close>

fun maximum_scalar :: "vec3 \<Rightarrow> real \<Rightarrow> vec3" where
  "maximum_scalar (a, b, c) t = (max a t, max b t, max c t)"

definition default_bbox :: bbox where
  "default_bbox =
     (let default_size = MIN_SIZE_THRESHOLD * 10 in
      \<lparr>bb_min = (0, 0, 0),
       bb_max = (default_size, default_size, default_size),
       bb_center = (default_size / 2, default_size / 2, default_size / 2),
       bb_size = (default_size, default_size, default_size)\<rparr>)"

text \<open>The body of the \<open>try\<close> block of \<open>_calculate_bounding_box\<close>; \<open>verts\<close> is the flat
  coordinate sequence \<open>shape.geometry.verts\<close>.\<close>

definition calculate_bounding_box_try :: "real list \<Rightarrow> py_error + bbox" where
  "calculate_bounding_box_try verts =
     (case reshape3 verts of
        Inl e \<Rightarrow> Inl e
      | Inr vs \<Rightarrow>
          if length vs = 0 then Inr default_bbox
          else
            let transformed_verts = map swap_columns_1_2 vs in
            (case min_axis0 transformed_verts of
               Inl e \<Rightarrow> Inl e
             | Inr min_coords \<Rightarrow>
                 (case max_axis0 transformed_verts of
                    Inl e \<Rightarrow> Inl e
                  | Inr max_coords \<Rightarrow>
                      Inr \<lparr>bb_min = min_coords,
                           bb_max = max_coords,
                           bb_center = vhalf (vadd min_coords max_coords),
                           bb_size = maximum_scalar (vsub max_coords min_coords)
                                       MIN_SIZE_THRESHOLD\<rparr>)))"

text \<open>\<open>except Exception: return self._default_bbox()\<close>\<close>

definition calculate_bounding_box :: "real list \<Rightarrow> bbox" where
  "calculate_bounding_box verts =
     (case calculate_bounding_box_try verts of
        Inl e \<Rightarrow> default_bbox
      | Inr b \<Rightarrow> b)"

fun vec3_list :: "vec3 \<Rightarrow> real list" where
  "vec3_list (a, b, c) = [a, b, c]"

section \<open>geometry_extractor.py: the bounding box on IEEE values\<close>

text \<open>
  A coordinate that the geometry kernel hands over is an IEEE double: a finite number, an
  infinity or NaN.  The functions above are \<open>_calculate_bounding_box\<close> on finite coordinates;
  the functions of this section are the same statements of the source on all doubles.
  NaN and the infinities follow IEEE 754 and numpy: \<open>min\<close>, \<open>max\<close>, \<open>np.maximum\<close>, \<open>+\<close>,
  \<open>-\<close> and \<open>/\<close> give NaN when an operand is NaN, \<open>inf - inf\<close> is NaN, and every comparison
  with NaN is false.  The arithmetic on finite numbers is taken exact.
\<close>

datatype np_float = Fin real | PInf | NInf | NaN

text \<open>\<open>a <= b\<close>\<close>

fun np_le :: "np_float \<Rightarrow> np_float \<Rightarrow> bool" where
  "np_le NaN b = False"
| "np_le a NaN = False"
| "np_le NInf b = True"
| "np_le a PInf = True"
| "np_le (Fin x) (Fin y) = (x \<le> y)"
| "np_le PInf b = False"
| "np_le (Fin x) NInf = False"






type_synonym np_vec3 = "np_float \<times> np_float \<times> np_float"

record ieee_bbox =
  bbox_min :: np_vec3
  bbox_max :: np_vec3
  bbox_center :: np_vec3
  bbox_size :: np_vec3











definition np_default_bbox :: ieee_bbox where
  "np_default_bbox =
     (let default_size = Fin (MIN_SIZE_THRESHOLD * 10);
          half = Fin (MIN_SIZE_THRESHOLD * 10 / 2) in
      \<lparr>bbox_min = (Fin 0, Fin 0, Fin 0),
       bbox_max = (default_size, default_size, default_size),
       bbox_center = (half, half, half),
       bbox_size = (default_size, default_size, default_size)\<rparr>)"





section \<open>The opened model, as the two modules read it\<close>

text \<open>
  The model file and the geometry kernel are external.  An entity carries what the calls of
  the source observe on it: its attributes and the outcome of each library call made on it,
  \<open>Inl\<close> when the call raises.
\<close>

type_synonym matrix = "real list list"

text \<open>An object placement, with the outcome of \<open>placement_util.get_local_placement\<close> on it\<close>

datatype placement = Placement "py_error + matrix option"

fun get_local_placement :: "placement \<Rightarrow> py_error + matrix option" where
  "get_local_placement (Placement r) = r"

text \<open>\<open>matrix[2][3]\<close>\<close>

definition matrix_2_3 :: "matrix \<Rightarrow> py_error + real" where
  "matrix_2_3 m = (case py_index m 2 of Inl e \<Rightarrow> Inl e | Inr row \<Rightarrow> py_index row 3)"

record storey =
  storey_id :: int
  storey_Name :: "string option"
  storey_GlobalId :: "string option"
  storey_ObjectPlacement :: "placement option"

text \<open>The spatial container of an element: whether it \<open>is_a('IfcBuildingStorey')\<close>, and its id\<close>

record container =
  container_is_storey :: bool
  container_id :: int

text \<open>A property value of a property set\<close>

datatype prop_value = PBool bool | PInt int | PFloat real | PStr string | POther

text \<open>The outcome of \<open>ifcopenshell.geom.create_shape\<close>: it raises, or gives no shape (or a
  shape with no geometry), or a shape with its flat \<open>geometry.verts\<close>.\<close>

datatype shape_result = ShapeRaises | NoShape | Shape "np_float list"

record product =
  product_id :: int
  GlobalId :: "string option"
  is_a :: string
  Name :: "string option"
  Representation :: bool
  get_container :: "py_error + container option"
  ObjectPlacement :: "placement option"
  get_psets :: "py_error + (string, (string, prop_value) dict) dict"
  create_shape :: shape_result

record ifc_file =
  by_type_IfcProduct :: "product list"
  by_type_IfcBuildingStorey :: "storey list"
  by_type_IfcProject :: "string option list"

section \<open>ifc_processor.py\<close>

definition RELEVANT_ELEMENT_TYPES :: "string list" where
  "RELEVANT_ELEMENT_TYPES =
     [''IfcWall'', ''IfcSlab'', ''IfcColumn'', ''IfcBeam'', ''IfcDoor'', ''IfcWindow'',
      ''IfcStair'', ''IfcStairFlight'', ''IfcRailing'', ''IfcRamp'', ''IfcRoof'',
      ''IfcCurtainWall'', ''IfcMember'', ''IfcPlate'', ''IfcCovering'',
      ''IfcFlowTerminal'', ''IfcBuildingElementProxy'', ''IfcFurnishingElement'', ''IfcSpace'']"

text \<open>The superscripts two and three are the UTF-8 bytes \<open>C2 B2\<close> and \<open>C2 B3\<close>.\<close>

definition m2 :: string where "m2 = [CHR ''m'', CHR 0xC2, CHR 0xB2]"
definition m3 :: string where "m3 = [CHR ''m'', CHR 0xC2, CHR 0xB3]"

definition UNIT_MAPPINGS :: "(string, string) dict" where
  "UNIT_MAPPINGS =
     [(''IfcWall'', m2), (''IfcSlab'', m2), (''IfcColumn'', ''units''), (''IfcBeam'', ''m''),
      (''IfcDoor'', ''units''), (''IfcWindow'', ''units''), (''IfcStair'', ''units''),
      (''IfcStairFlight'', ''units''), (''IfcRailing'', ''m''), (''IfcRamp'', m2),
      (''IfcRoof'', m2), (''IfcCurtainWall'', m2), (''IfcMember'', ''m''),
      (''IfcPlate'', m2), (''IfcCovering'', m2), (''IfcFlowTerminal'', ''units''),
      (''IfcBuildingElementProxy'', ''units''), (''IfcFurnishingElement'', ''units''),
      (''IfcSpace'', m3)]"

record level =
  level_id :: int
  level_name :: string
  level_elevation :: real
  level_global_id :: "string option"

text \<open>The mutable state of an \<open>IFCProcessor\<close>: the level cache and the accumulator, a
  \<open>defaultdict\<close> of \<open>defaultdict(int)\<close>.\<close>

record processor =
  levels_data :: "(int, level) dict"
  quantity_table :: "(string, (string, int) dict) dict"

definition init_processor :: processor where
  "init_processor = \<lparr>levels_data = [], quantity_table = []\<rparr>"

definition get_level_elevation_try :: "storey \<Rightarrow> py_error + real option" where
  "get_level_elevation_try s =
     (case storey_ObjectPlacement s of
        None \<Rightarrow> Inr None
      | Some placement \<Rightarrow>
          (case get_local_placement placement of
             Inl e \<Rightarrow> Inl e
           | Inr None \<Rightarrow> Inr None
           | Inr (Some matrix) \<Rightarrow>
               (case matrix_2_3 matrix of Inl e \<Rightarrow> Inl e | Inr z \<Rightarrow> Inr (Some z))))"

text \<open>An exception is logged and, like a fall through the two \<open>if\<close>s, ends in
  \<open>return 0.0\<close>.\<close>

definition get_level_elevation :: "storey \<Rightarrow> real" where
  "get_level_elevation s =
     (case get_level_elevation_try s of
        Inl e \<Rightarrow> 0
      | Inr None \<Rightarrow> 0
      | Inr (Some z) \<Rightarrow> z)"

definition level_data :: "storey \<Rightarrow> level" where
  "level_data s =
     \<lparr>level_id = storey_id s,
      level_name = str_or (storey_Name s) (''Level '' @ str_int (storey_id s)),
      level_elevation = get_level_elevation s,
      level_global_id = storey_GlobalId s\<rparr>"

text \<open>\<open>{level['id']: level for level in levels}\<close>\<close>

definition dict_by_id :: "level list \<Rightarrow> (int, level) dict" where
  "dict_by_id ls = foldl (\<lambda>d l. AList.update (level_id l) l d) [] ls"

text \<open>\<open>get_building_levels\<close> returns the sorted list and caches it; \<open>list.sort\<close> is stable,
  as \<^const>\<open>sort_key\<close> is.\<close>

definition get_building_levels :: "ifc_file \<Rightarrow> processor \<Rightarrow> level list \<times> processor" where
  "get_building_levels f p =
     (let levels = sort_key level_elevation (map level_data (by_type_IfcBuildingStorey f))
      in (levels, p\<lparr>levels_data := dict_by_id levels\<rparr>))"

text \<open>\<open>min(items, key=key)\<close> on a non-empty sequence keeps the first item of least key.\<close>

definition py_min_key :: "('a \<Rightarrow> real) \<Rightarrow> 'a \<Rightarrow> 'a list \<Rightarrow> 'a" where
  "py_min_key key x xs = foldl (\<lambda>best y. if key y < key best then y else best) x xs"

definition find_closest_level :: "processor \<Rightarrow> real \<Rightarrow> int option" where
  "find_closest_level p z_coordinate =
     (case dict_values (levels_data p) of
        [] \<Rightarrow> None
      | l # ls \<Rightarrow>
          Some (level_id (py_min_key (\<lambda>level. \<bar>z_coordinate - level_elevation level\<bar>) l ls)))"

text \<open>The two \<open>try\<close> blocks of \<open>_get_element_level\<close>; each result is \<open>Some r\<close> for
  \<open>return r\<close> and \<open>None\<close> for falling out of the block, by \<open>pass\<close> or by its end.\<close>

definition level_from_container :: "product \<Rightarrow> int option option" where
  "level_from_container element =
     (case get_container element of
        Inl e \<Rightarrow> None
      | Inr None \<Rightarrow> None
      | Inr (Some c) \<Rightarrow> if container_is_storey c then Some (Some (container_id c)) else None)"

definition level_from_placement :: "processor \<Rightarrow> product \<Rightarrow> int option option" where
  "level_from_placement p element =
     (case ObjectPlacement element of
        None \<Rightarrow> None
      | Some placement \<Rightarrow>
          (case get_local_placement placement of
             Inl e \<Rightarrow> None
           | Inr None \<Rightarrow> None
           | Inr (Some matrix) \<Rightarrow>
               (case matrix_2_3 matrix of
                  Inl e \<Rightarrow> None
                | Inr z_coordinate \<Rightarrow> Some (find_closest_level p z_coordinate))))"

definition get_element_level :: "processor \<Rightarrow> product \<Rightarrow> int option" where
  "get_element_level p element =
     (case level_from_container element of
        Some r \<Rightarrow> r
      | None \<Rightarrow>
          (case level_from_placement p element of
             Some r \<Rightarrow> r
           | None \<Rightarrow> None))"

subsection \<open>Dimensions and the element key\<close>

text \<open>A retained dimension is an \<open>int\<close> or a \<open>float\<close>: \<open>round(v, 2)\<close> keeps the type of
  \<open>v\<close>, and a \<open>bool\<close> is an \<open>int\<close> to \<open>isinstance\<close> and to \<open>round\<close>.\<close>

datatype dim_value = DInt int | DFloat real

fun dim_positive :: "dim_value \<Rightarrow> bool" where
  "dim_positive (DInt i) = (i > 0)"
| "dim_positive (DFloat x) = (x > 0)"

definition round_half_even :: "real \<Rightarrow> int" where
  "round_half_even x =
     (let f = \<lfloor>x\<rfloor>; d = x - of_int f
      in if d < 1 / 2 then f else if d > 1 / 2 then f + 1 else if even f then f else f + 1)"

definition py_round2 :: "real \<Rightarrow> real" where
  "py_round2 x = of_int (round_half_even (x * 100)) / 100"

text \<open>\<open>isinstance(prop_value, (int, float)) and prop_value > 0\<close>, then
  \<open>round(prop_value, 2)\<close>; \<open>None\<close> when the condition fails.\<close>

fun dimension_of :: "prop_value \<Rightarrow> dim_value option" where
  "dimension_of (PBool b) = (if b then Some (DInt 1) else None)"
| "dimension_of (PInt i) = (if i > 0 then Some (DInt i) else None)"
| "dimension_of (PFloat x) = (if x > 0 then Some (DFloat (py_round2 x)) else None)"
| "dimension_of (PStr s) = None"
| "dimension_of POther = None"

definition dimension_props :: "string list" where
  "dimension_props =
     [''Length'', ''Width'', ''Height'', ''Thickness'', ''Area'', ''Volume'', ''Depth'']"

definition add_dimension ::
  "(string, dim_value) dict \<Rightarrow> string \<times> prop_value \<Rightarrow> (string, dim_value) dict" where
  "add_dimension dimensions prop =
     (if fst prop \<in> set dimension_props
      then (case dimension_of (snd prop) of
              None \<Rightarrow> dimensions
            | Some v \<Rightarrow> AList.update (fst prop) v dimensions)
      else dimensions)"

text \<open>A raising \<open>get_psets\<close> leaves the dimensions empty.\<close>

definition get_element_dimensions :: "product \<Rightarrow> (string, dim_value) dict" where
  "get_element_dimensions element =
     (case get_psets element of
        Inl e \<Rightarrow> []
      | Inr psets \<Rightarrow> foldl add_dimension [] (concat (dict_values psets)))"

text \<open>\<open>f"{value}"\<close>: an \<open>int\<close> prints its digits; the text of a \<open>float\<close> is Python's
  \<open>repr\<close>, the parameter \<open>float_str\<close>.\<close>

fun format_value :: "(real \<Rightarrow> string) \<Rightarrow> dim_value \<Rightarrow> string" where
  "format_value float_str (DInt i) = str_int i"
| "format_value float_str (DFloat x) = float_str x"

definition dim_part :: "(real \<Rightarrow> string) \<Rightarrow> string \<times> dim_value \<Rightarrow> string" where
  "dim_part float_str kv = fst kv @ '':'' @ format_value float_str (snd kv)"

text \<open>\<open>sorted(dimensions.items())\<close> orders the pairs by key: the keys of a dict are distinct,
  so no two values are compared.\<close>

definition create_element_key ::
  "(real \<Rightarrow> string) \<Rightarrow> string \<Rightarrow> (string, dim_value) dict \<Rightarrow> string" where
  "create_element_key float_str element_type dimensions =
     (if dimensions = [] then element_type @ ''_default''
      else
        let dim_parts = map (dim_part float_str)
                          (filter (\<lambda>kv. dim_positive (snd kv)) (sort_key fst dimensions))
        in if dim_parts \<noteq> [] then element_type @ ''_'' @ py_join ''-'' dim_parts
           else element_type @ ''_default'')"

subsection \<open>The quantity accumulator\<close>

text \<open>\<open>table[k][name] += 1\<close> on a \<open>defaultdict\<close> of \<open>defaultdict(int)\<close>: a missing inner
  dict is created empty and a missing counter starts at 0.\<close>

definition increment ::
  "string \<Rightarrow> string \<Rightarrow> (string, (string, int) dict) dict \<Rightarrow> (string, (string, int) dict) dict"
  where
  "increment k name table =
     (let inner = dict_get table k []
      in AList.update k (AList.update name (dict_get inner name 0 + 1) inner) table)"

definition level_key :: "int \<Rightarrow> string" where
  "level_key lid = ''level_'' @ str_int lid @ ''_count''"

text \<open>\<open>if level_id:\<close> holds for an \<open>int\<close> other than 0; \<open>None\<close> and 0 are false.\<close>

definition update_quantity_table :: "string \<Rightarrow> int option \<Rightarrow> processor \<Rightarrow> processor" where
  "update_quantity_table element_key lid p =
     (let t = increment element_key ''total_count'' (quantity_table p);
          t' = (case lid of
                  None \<Rightarrow> t
                | Some i \<Rightarrow> if i \<noteq> 0 then increment element_key (level_key i) t else t)
      in p\<lparr>quantity_table := t'\<rparr>)"

subsection \<open>Processing the elements\<close>

record element_info =
  element_id :: int
  element_global_id :: "string option"
  element_type :: string
  element_name :: string
  element_level_id :: "int option"
  element_dimensions :: "(string, dim_value) dict"
  element_quantities :: "(string, real) dict"
  element_key :: string

definition process_single_element ::
  "(real \<Rightarrow> string) \<Rightarrow> product \<Rightarrow> processor \<Rightarrow> element_info \<times> processor" where
  "process_single_element float_str element p =
     (let lid = get_element_level p element;
          dimensions = get_element_dimensions element;
          key = create_element_key float_str (is_a element) dimensions
      in (\<lparr>element_id = product_id element,
           element_global_id = GlobalId element,
           element_type = is_a element,
           element_name = str_or (Name element) (is_a element @ ''_'' @ str_int (product_id element)),
           element_level_id = lid,
           element_dimensions = dimensions,
           element_quantities = [(''Count'', 1)],
           element_key = key\<rparr>,
          update_quantity_table key lid p))"

definition relevant_elements :: "ifc_file \<Rightarrow> product list" where
  "relevant_elements f =
     filter (\<lambda>product. Representation product \<and> is_a product \<in> set RELEVANT_ELEMENT_TYPES)
       (by_type_IfcProduct f)"

text \<open>The loop of \<open>process_elements\<close>.  No call in \<open>_process_single_element\<close> raises in
  this model (each library call sits in a \<open>try\<close> of its own), and the element data is a
  non-empty dict, so every relevant element is appended.\<close>

fun process_loop ::
  "(real \<Rightarrow> string) \<Rightarrow> product list \<Rightarrow> element_info list \<Rightarrow> processor
     \<Rightarrow> element_info list \<times> processor" where
  "process_loop float_str [] processed_elements p = (processed_elements, p)"
| "process_loop float_str (element # rest) processed_elements p =
     (case process_single_element float_str element p of
        (element_data, p') \<Rightarrow> process_loop float_str rest (processed_elements @ [element_data]) p')"

definition process_elements ::
  "(real \<Rightarrow> string) \<Rightarrow> ifc_file \<Rightarrow> processor \<Rightarrow> element_info list \<times> processor" where
  "process_elements float_str f p = process_loop float_str (relevant_elements f) [] p"

subsection \<open>Rendering the quantity table\<close>

record quantity_row =
  row_element_key :: string
  row_element_type :: string
  unit_of_measure :: string
  total_quantity :: int
  level_quantities :: "(int, int) dict"

record quantity_data =
  table_data :: "quantity_row list"
  levels :: "level list"

text \<open>The inner loop over \<open>quantities.items()\<close>; \<open>int(...)\<close> and \<open>[1]\<close> may raise.\<close>

fun collect_level_quantities ::
  "(string \<times> int) list \<Rightarrow> (int, int) dict \<Rightarrow> py_error + (int, int) dict" where
  "collect_level_quantities [] lq = Inr lq"
| "collect_level_quantities ((qty_name, qty_value) # rest) lq =
     (if startswith qty_name ''level_'' \<and> endswith qty_name ''_count''
      then (case py_index (py_split CHR ''_'' qty_name) 1 of
              Inl e \<Rightarrow> Inl e
            | Inr piece \<Rightarrow>
                (case py_int piece of
                   None \<Rightarrow> Inl ValueError
                 | Some lid \<Rightarrow> collect_level_quantities rest (AList.update lid qty_value lq)))
      else collect_level_quantities rest lq)"

definition make_row :: "string \<Rightarrow> (string, int) dict \<Rightarrow> py_error + quantity_row" where
  "make_row key quantities =
     (case py_index (py_split CHR ''_'' key) 0 of
        Inl e \<Rightarrow> Inl e
      | Inr etype \<Rightarrow>
          (case collect_level_quantities quantities [] of
             Inl e \<Rightarrow> Inl e
           | Inr lq \<Rightarrow>
               Inr \<lparr>row_element_key = key,
                    row_element_type = etype,
                    unit_of_measure = dict_get UNIT_MAPPINGS etype ''units'',
                    total_quantity = dict_get quantities ''total_count'' 0,
                    level_quantities = lq\<rparr>))"

fun make_rows ::
  "(string \<times> (string, int) dict) list \<Rightarrow> quantity_row list \<Rightarrow> py_error + quantity_row list"
  where
  "make_rows [] table = Inr table"
| "make_rows ((key, quantities) # rest) table =
     (case make_row key quantities of
        Inl e \<Rightarrow> Inl e
      | Inr row \<Rightarrow> make_rows rest (table @ [row]))"

definition generate_quantity_table_data :: "processor \<Rightarrow> py_error + quantity_data" where
  "generate_quantity_table_data p =
     (if quantity_table p = []
      then Inr \<lparr>table_data = [], levels = dict_values (levels_data p)\<rparr>
      else (case make_rows (quantity_table p) [] of
              Inl e \<Rightarrow> Inl e
            | Inr rows \<Rightarrow>
                Inr \<lparr>table_data = sort_key row_element_type rows,
                     levels = sort_key level_elevation (dict_values (levels_data p))\<rparr>))"

subsection \<open>The pipeline\<close>

text \<open>\<open>process_ifc_file\<close> on an opened file: a fresh processor, the levels, the elements,
  the table.  An exception gives the failure result.  (The project information and the
  summary block of the result are left out.)\<close>

record processing_result =
  result_levels :: "level list"
  result_elements :: "element_info list"
  result_quantity_table :: quantity_data

definition process_ifc_file :: "(real \<Rightarrow> string) \<Rightarrow> ifc_file \<Rightarrow> py_error + processing_result"
  where
  "process_ifc_file float_str f =
     (case get_building_levels f init_processor of
        (lvls, p1) \<Rightarrow>
          (case process_elements float_str f p1 of
             (elems, p2) \<Rightarrow>
               (case generate_quantity_table_data p2 of
                  Inl e \<Rightarrow> Inl e
                | Inr quantity_data \<Rightarrow>
                    Inr \<lparr>result_levels = lvls,
                         result_elements = elems,
                         result_quantity_table = quantity_data\<rparr>)))"

section \<open>geometry_extractor.py: the extraction loop\<close>

record geom_element =
  geom_type :: string
  geom_id :: "string option"
  geom_name :: string
  boundingBox :: ieee_bbox
  ifcType :: "string option"

text \<open>In a geometry record the key \<open>ifcType\<close> may be absent (\<open>None\<close>), as
  \<open>geom_element.get('ifcType', 'Unknown')\<close> of the merge allows; the extractor always
  sets it.\<close>

record geometry_metadata =
  totalInFile :: nat
  withGeometry :: nat
  processed :: nat
  elementTypes :: "(string, nat) dict"
  projectName :: string

record 'e geometry_data =
  model_type :: string
  elements :: "'e list"
  totalElements :: nat
  metadata :: geometry_metadata






section \<open>main.py: the merge\<close>

text \<open>A geometry record after the merge: the five fields it had, and the two set by
  \<open>_enhance_geometry_with_element_data\<close>.\<close>

record enhanced_element =
  enh_type :: string
  enh_id :: "string option"
  enh_name :: string
  enh_boundingBox :: ieee_bbox
  enh_ifcType :: "string option"
  enh_element_key :: string
  enh_level_id :: "int option"

text \<open>The dict comprehension over the elements with a truthy \<open>global_id\<close>: a later element
  of the same id overwrites the entry.\<close>

definition element_mapping :: "element_info list \<Rightarrow> (string option, string \<times> int option) dict"
  where
  "element_mapping els =
     foldl (\<lambda>d element.
              if truthy_str (element_global_id element)
              then AList.update (element_global_id element)
                     (element_key element, element_level_id element) d
              else d)
       [] els"

definition enhance_element ::
  "(string option, string \<times> int option) dict \<Rightarrow> geom_element \<Rightarrow> enhanced_element" where
  "enhance_element mapping g =
     (case map_of mapping (geom_id g) of
        Some m \<Rightarrow>
          \<lparr>enh_type = geom_type g, enh_id = geom_id g, enh_name = geom_name g,
           enh_boundingBox = boundingBox g, enh_ifcType = ifcType g,
           enh_element_key = fst m, enh_level_id = snd m\<rparr>
      | None \<Rightarrow>
          let ifc_type = (case ifcType g of None \<Rightarrow> ''Unknown'' | Some t \<Rightarrow> t) in
          \<lparr>enh_type = geom_type g, enh_id = geom_id g, enh_name = geom_name g,
           enh_boundingBox = boundingBox g, enh_ifcType = ifcType g,
           enh_element_key = ifc_type @ ''_default'', enh_level_id = None\<rparr>)"

definition enhance_geometry_with_element_data ::
  "geom_element geometry_data \<Rightarrow> element_info list \<Rightarrow> enhanced_element geometry_data" where
  "enhance_geometry_with_element_data gd els =
     (let mapping = element_mapping els
      in \<lparr>model_type = model_type gd,
          elements = map (enhance_element mapping) (elements gd),
          totalElements = totalElements gd,
          metadata = metadata gd\<rparr>)"

subsection \<open>The bounding box as the specification words it\<close>

fun cx :: "vec3 \<Rightarrow> real" where "cx (a, b, c) = a"
fun cy :: "vec3 \<Rightarrow> real" where "cy (a, b, c) = b"
fun cz :: "vec3 \<Rightarrow> real" where "cz (a, b, c) = c"

text \<open>The flat coordinate sequence of a sequence of vertices\<close>

definition flatten_verts :: "vec3 list \<Rightarrow> real list" where
  "flatten_verts V = concat (map vec3_list V)"

text \<open>The fixed default box: a cube of side ten times the threshold \<open>0.001\<close>, its minimum
  corner at the origin.\<close>

definition spec_default_box :: bbox where
  "spec_default_box =
     \<lparr>bb_min = (0, 0, 0), bb_max = (1 / 100, 1 / 100, 1 / 100),
      bb_center = (1 / 200, 1 / 200, 1 / 200), bb_size = (1 / 100, 1 / 100, 1 / 100)\<rparr>"

text \<open>Swap components 1 and 2 of every vertex, take the minimum and maximum of every axis,
  clamp the extent from below by the threshold, and centre on the unclamped extent.\<close>

definition spec_build :: "vec3 list \<Rightarrow> bbox" where
  "spec_build V =
     (if V = [] then spec_default_box
      else
        let S = map (\<lambda>v. (cx v, cz v, cy v)) V;
            lo = (Min (cx ` set S), Min (cy ` set S), Min (cz ` set S));
            hi = (Max (cx ` set S), Max (cy ` set S), Max (cz ` set S))
        in \<lparr>bb_min = lo, bb_max = hi,
            bb_center = ((cx lo + cx hi) / 2, (cy lo + cy hi) / 2, (cz lo + cz hi) / 2),
            bb_size = (max (cx hi - cx lo) (1 / 1000), max (cy hi - cy lo) (1 / 1000),
                       max (cz hi - cz lo) (1 / 1000))\<rparr>)"

text \<open>The eight corners of the box from \<open>(0,0,0)\<close> to \<open>(1,2,3)\<close>\<close>

definition cube_0_123 :: "vec3 list" where
  "cube_0_123 =
     [(0, 0, 0), (1, 0, 0), (0, 2, 0), (1, 2, 0), (0, 0, 3), (1, 0, 3), (0, 2, 3), (1, 2, 3)]"


subsection \<open>The element key as the specification words it\<close>

text \<open>\<open>"{type}_default"\<close> for the empty mapping; otherwise the entries sorted by name, each
  as \<open>"name:value"\<close>, joined by \<open>-\<close> after \<open>"{type}_"\<close>.\<close>

definition spec_derive ::
  "(real \<Rightarrow> string) \<Rightarrow> string \<Rightarrow> (string, dim_value) dict \<Rightarrow> string" where
  "spec_derive float_str t dims =
     (if dims = [] then t @ ''_default''
      else t @ ''_'' @ py_join ''-'' (map (dim_part float_str) (sort_key fst dims)))"

definition positive_entries :: "(string, dim_value) dict \<Rightarrow> (string, dim_value) dict" where
  "positive_entries dims = filter (\<lambda>kv. dim_positive (snd kv)) dims"

text \<open>What Python prints for the floats of the examples: \<open>0.0\<close>, \<open>1.0\<close> and \<open>2.345\<close>\<close>

definition example_float_str :: "real \<Rightarrow> string" where
  "example_float_str x =
     (if x = 0 then ''0.0'' else if x = 1 then ''1.0''
      else if x = 2345 / 1000 then ''2.345'' else ''?'')"

text \<open>\<open>table[key][name]\<close> as a read: 0 where the entry is missing\<close>

definition counter :: "processor \<Rightarrow> string \<Rightarrow> string \<Rightarrow> int" where
  "counter p key name = dict_get (dict_get (quantity_table p) key []) name 0"

text \<open>Three cached levels, at the elevations 0.0, 3.0 and 6.0\<close>

definition example_levels_data :: "(int, level) dict" where
  "example_levels_data =
     [(10, \<lparr>level_id = 10, level_name = ''Ground'', level_elevation = 0, level_global_id = None\<rparr>),
      (20, \<lparr>level_id = 20, level_name = ''First'', level_elevation = 3, level_global_id = None\<rparr>),
      (30, \<lparr>level_id = 30, level_name = ''Second'', level_elevation = 6, level_global_id = None\<rparr>)]"

text \<open>An element outside any storey, placed by a translation to the height \<open>z\<close>\<close>

definition element_placed_at :: "real \<Rightarrow> product" where
  "element_placed_at z =
     \<lparr>product_id = 1, GlobalId = Some ''G1'', is_a = ''IfcWall'', Name = None,
      Representation = True, get_container = Inr None,
      ObjectPlacement =
        Some (Placement (Inr (Some [[1, 0, 0, 0], [0, 1, 0, 0], [0, 0, 1, z], [0, 0, 0, 1]]))),
      get_psets = Inr [], create_shape = NoShape\<rparr>"

text \<open>The element whose data the lookup holds for a global id: the last element of that id
  among those with a truthy \<open>global_id\<close>.\<close>

definition mapped_element :: "element_info list \<Rightarrow> string option \<Rightarrow> element_info option" where
  "mapped_element els gid =
     find (\<lambda>e. truthy_str (element_global_id e) \<and> element_global_id e = gid) (rev els)"

text \<open>The five fields a geometry record has before the merge, read before and after it\<close>

definition geom_fields ::
  "geom_element \<Rightarrow> string \<times> string option \<times> string \<times> ieee_bbox \<times> string option" where
  "geom_fields g = (geom_type g, geom_id g, geom_name g, boundingBox g, ifcType g)"

definition enhanced_fields ::
  "enhanced_element \<Rightarrow> string \<times> string option \<times> string \<times> ieee_bbox \<times> string option" where
  "enhanced_fields e = (enh_type e, enh_id e, enh_name e, enh_boundingBox e, enh_ifcType e)"

text \<open>A geometry payload of two records and one processed element, of the first record's id\<close>

definition example_geometry :: "geom_element geometry_data" where
  "example_geometry =
     \<lparr>model_type = ''SimpleIFCModel'',
      elements =
        [\<lparr>geom_type = ''wall'', geom_id = Some ''G1'', geom_name = ''Wall A'',
          boundingBox = np_default_bbox, ifcType = Some ''IfcWall''\<rparr>,
         \<lparr>geom_type = ''site'', geom_id = Some ''G2'', geom_name = ''Site'',
          boundingBox = np_default_bbox, ifcType = Some ''IfcSite''\<rparr>],
      totalElements = 2,
      metadata = \<lparr>totalInFile = 5, withGeometry = 2, processed = 2,
                  elementTypes = [(''IfcWall'', 1), (''IfcSite'', 1)],
                  projectName = ''IFC Project''\<rparr>\<rparr>"

definition example_elements :: "element_info list" where
  "example_elements =
     [\<lparr>element_id = 7, element_global_id = Some ''G1'', element_type = ''IfcWall'',
       element_name = ''Wall A'', element_level_id = Some 20, element_dimensions = [],
       element_quantities = [(''Count'', 1)], element_key = ''IfcWall_default''\<rparr>]"

text \<open>A storey with no placement, or with a placement that \<open>get_local_placement\<close> resolves
  to \<open>None\<close> or fails to resolve\<close>

definition elevation_unresolved :: "storey \<Rightarrow> bool" where
  "elevation_unresolved s =
     (case storey_ObjectPlacement s of
        None \<Rightarrow> True
      | Some placement \<Rightarrow>
          (case get_local_placement placement of
             Inl e \<Rightarrow> True
           | Inr None \<Rightarrow> True
           | Inr (Some matrix) \<Rightarrow> False))"

text \<open>The same storey, placed by a translation to the height 0\<close>

definition placed_at_zero :: "storey \<Rightarrow> storey" where
  "placed_at_zero s =
     s\<lparr>storey_ObjectPlacement :=
         Some (Placement (Inr (Some [[1, 0, 0, 0], [0, 1, 0, 0], [0, 0, 1, 0], [0, 0, 0, 1]])))\<rparr>"

text \<open>A file with a storey at the height 3.0 and a storey without placement\<close>

definition example_storeys :: "storey list" where
  "example_storeys =
     [\<lparr>storey_id = 1, storey_Name = Some ''Upper'', storey_GlobalId = Some ''S1'',
       storey_ObjectPlacement =
         Some (Placement (Inr (Some [[1, 0, 0, 0], [0, 1, 0, 0], [0, 0, 1, 3], [0, 0, 0, 1]])))\<rparr>,
      \<lparr>storey_id = 2, storey_Name = None, storey_GlobalId = Some ''S2'',
       storey_ObjectPlacement = None\<rparr>]"

definition example_file :: ifc_file where
  "example_file =
     \<lparr>by_type_IfcProduct = [], by_type_IfcBuildingStorey = example_storeys,
      by_type_IfcProject = []\<rparr>"

subsection \<open>Accumulators that the pipeline can build\<close>

text \<open>A run of accumulation steps, each an element key with a level id or \<open>None\<close>\<close>

definition accumulate :: "(string \<times> int option) list \<Rightarrow> processor \<Rightarrow> processor" where
  "accumulate steps p = foldl (\<lambda>p step. update_quantity_table (fst step) (snd step) p) p steps"

text \<open>The counters of a key are \<open>total_count\<close> and \<open>level_<id>_count\<close>, each once.\<close>

definition counters_wf :: "(string, int) dict \<Rightarrow> bool" where
  "counters_wf q =
     (distinct (map fst q) \<and>
      list_all (\<lambda>nv. fst nv = ''total_count'' \<or> fst nv \<in> range level_key) q)"

definition table_wf :: "(string, (string, int) dict) dict \<Rightarrow> bool" where
  "table_wf t = (distinct (map fst t) \<and> list_all (\<lambda>kq. counters_wf (snd kq)) t)"

subsection \<open>Tables and rows up to the order of their entries\<close>

text \<open>The accumulator read as a nested map, and a row with its \<open>level_quantities\<close> read as
  a map: two dicts with the same entries in another order are equal in Python.\<close>

definition table_view :: "(string, (string, int) dict) dict \<Rightarrow> string \<rightharpoonup> (string \<rightharpoonup> int)" where
  "table_view t = (\<lambda>k. map_option map_of (map_of t k))"

definition row_content ::
  "quantity_row \<Rightarrow> string \<times> string \<times> string \<times> int \<times> (int \<rightharpoonup> int)" where
  "row_content row =
     (row_element_key row, row_element_type row, unit_of_measure row, total_quantity row,
      map_of (level_quantities row))"

text \<open>One increment and one accumulation step, on the nested map\<close>

definition increment_view ::
  "string \<Rightarrow> string \<Rightarrow> (string \<rightharpoonup> (string \<rightharpoonup> int)) \<Rightarrow> (string \<rightharpoonup> (string \<rightharpoonup> int))" where
  "increment_view k n V =
     (let inner = (case V k of None \<Rightarrow> Map.empty | Some m \<Rightarrow> m)
      in V(k \<mapsto> inner(n \<mapsto> (case inner n of None \<Rightarrow> 0 | Some c \<Rightarrow> c) + 1)))"

definition step_view ::
  "string \<times> int option \<Rightarrow> (string \<rightharpoonup> (string \<rightharpoonup> int)) \<Rightarrow> (string \<rightharpoonup> (string \<rightharpoonup> int))" where
  "step_view st V =
     (case snd st of
        None \<Rightarrow> increment_view (fst st) ''total_count'' V
      | Some i \<Rightarrow>
          if i \<noteq> 0 then increment_view (fst st) (level_key i)
                           (increment_view (fst st) ''total_count'' V)
          else increment_view (fst st) ''total_count'' V)"

text \<open>The row of a key, from the nested map\<close>

definition row_of_view ::
  "(string \<rightharpoonup> (string \<rightharpoonup> int)) \<Rightarrow> string \<Rightarrow> string \<times> string \<times> string \<times> int \<times> (int \<rightharpoonup> int)"
  where
  "row_of_view V k =
     (let inner = (case V k of None \<Rightarrow> Map.empty | Some m \<Rightarrow> m);
          etype = hd (py_split CHR ''_'' k)
      in (k, etype, dict_get UNIT_MAPPINGS etype ''units'',
          (case inner ''total_count'' of None \<Rightarrow> 0 | Some c \<Rightarrow> c),
          (\<lambda>i. inner (level_key i))))"

text \<open>The accumulation step that an element causes\<close>

definition element_step :: "(real \<Rightarrow> string) \<Rightarrow> processor \<Rightarrow> product \<Rightarrow> string \<times> int option" where
  "element_step float_str p element =
     (create_element_key float_str (is_a element) (get_element_dimensions element),
      get_element_level p element)"

text \<open>The rows of a nested map, one for each of its keys, in no order\<close>

definition rows_of_view ::
  "(string \<rightharpoonup> (string \<rightharpoonup> int))
     \<Rightarrow> (string \<times> string \<times> string \<times> int \<times> (int \<rightharpoonup> int)) multiset" where
  "rows_of_view V = image_mset (row_of_view V) (mset_set (dom V))"

text \<open>A model with the levels A (id 10, at 0.0) and B (id 11, at 3.0), two walls contained in
  A and a door placed at the height 3.2, none with dimension properties; and the same
  model with its products enumerated in another order.\<close>

definition example_wall :: "int \<Rightarrow> string \<Rightarrow> product" where
  "example_wall i g =
     \<lparr>product_id = i, GlobalId = Some g, is_a = ''IfcWall'', Name = None,
      Representation = True,
      get_container = Inr (Some \<lparr>container_is_storey = True, container_id = 10\<rparr>),
      ObjectPlacement = None, get_psets = Inr [], create_shape = NoShape\<rparr>"

definition example_door :: product where
  "example_door =
     \<lparr>product_id = 23, GlobalId = Some ''D1'', is_a = ''IfcDoor'', Name = Some ''Door'',
      Representation = True, get_container = Inr None,
      ObjectPlacement =
        Some (Placement (Inr (Some [[1, 0, 0, 0], [0, 1, 0, 0], [0, 0, 1, 32 / 10], [0, 0, 0, 1]]))),
      get_psets = Inr [], create_shape = NoShape\<rparr>"

definition example_model :: "product list \<Rightarrow> ifc_file" where
  "example_model products =
     \<lparr>by_type_IfcProduct = products,
      by_type_IfcBuildingStorey =
        [\<lparr>storey_id = 10, storey_Name = Some ''A'', storey_GlobalId = Some ''SA'',
          storey_ObjectPlacement = None\<rparr>,
         \<lparr>storey_id = 11, storey_Name = Some ''B'', storey_GlobalId = Some ''SB'',
          storey_ObjectPlacement =
            Some (Placement (Inr (Some [[1, 0, 0, 0], [0, 1, 0, 0], [0, 0, 1, 3], [0, 0, 0, 1]])))\<rparr>],
      by_type_IfcProject = []\<rparr>"

subsection \<open>Finite coordinates\<close>







section \<open>Properties of the bounding box\<close>

lemma reshape3_flatten: "reshape3 (flatten_verts V) = Inr V"
  by (induction V) (auto simp: flatten_verts_def)

lemma Min_insert_min:
  "finite S \<Longrightarrow> Min (insert (min a x) S) = min (a::real) (Min (insert x S))"
  by (cases "S = {}") (simp_all add: min.assoc)

lemma Max_insert_max:
  "finite S \<Longrightarrow> Max (insert (max a x) S) = max (a::real) (Max (insert x S))"
  by (cases "S = {}") (simp_all add: max.assoc)

lemma foldl_vmin:
  "foldl vmin v vs = (Min (cx ` set (v # vs)), Min (cy ` set (v # vs)), Min (cz ` set (v # vs)))"
proof (induction vs arbitrary: v)
  case Nil
  show ?case by (cases v) simp
next
  case (Cons w ws)
  obtain a b c where v: "v = (a, b, c)" by (cases v)
  obtain x y z where w: "w = (x, y, z)" by (cases w)
  show ?case
    unfolding foldl_Cons Cons.IH
    by (simp add: v w Min_insert_min)
qed

lemma foldl_vmax:
  "foldl vmax v vs = (Max (cx ` set (v # vs)), Max (cy ` set (v # vs)), Max (cz ` set (v # vs)))"
proof (induction vs arbitrary: v)
  case Nil
  show ?case by (cases v) simp
next
  case (Cons w ws)
  obtain a b c where v: "v = (a, b, c)" by (cases v)
  obtain x y z where w: "w = (x, y, z)" by (cases w)
  show ?case
    unfolding foldl_Cons Cons.IH
    by (simp add: v w Max_insert_max)
qed

lemma swap_columns_1_2_fun: "swap_columns_1_2 = (\<lambda>v. (cx v, cz v, cy v))"
proof (rule ext)
  fix v :: vec3
  show "swap_columns_1_2 v = (cx v, cz v, cy v)" by (cases v) simp
qed

lemma calculate_bounding_box_refines:
  "calculate_bounding_box (flatten_verts V) = spec_build V"
proof (cases V)
  case Nil
  then show ?thesis
    by (simp add: calculate_bounding_box_def calculate_bounding_box_try_def reshape3_flatten
        spec_build_def default_bbox_def spec_default_box_def MIN_SIZE_THRESHOLD_def Let_def)
next
  case (Cons v vs)
  show ?thesis
    unfolding Cons calculate_bounding_box_def calculate_bounding_box_try_def reshape3_flatten
      spec_build_def swap_columns_1_2_fun
    by (simp add: foldl_vmin foldl_vmax MIN_SIZE_THRESHOLD_def Let_def del: set_simps)
qed

lemma cube_max:
  "bb_max (calculate_bounding_box (flatten_verts cube_0_123)) = (1, 3, 2)"
  by (simp add: cube_0_123_def flatten_verts_def calculate_bounding_box_def
      calculate_bounding_box_try_def)

text \<open>
  Claim C1.  For every vertex sequence \<open>V\<close>, \<open>_calculate_bounding_box\<close> on the flat
  coordinates of \<open>V\<close> is the box of the specification: the fixed default cube for no vertex,
  and otherwise the per-axis minimum and maximum of the vertices with components 1 and 2
  swapped, the size clamped from below by the threshold and the centre taken from the
  unclamped minimum and maximum.  On the cube with corners \<open>(0,0,0)\<close> and \<open>(1,2,3)\<close> the
  maximum is \<open>(1,3,2)\<close>.
\<close>

theorem C1_bounding_box_refines_spec:
  "(\<forall>V. calculate_bounding_box (flatten_verts V) = spec_build V) \<and>
   calculate_bounding_box [] = spec_default_box \<and>
   bb_max (calculate_bounding_box (flatten_verts cube_0_123)) = (1, 3, 2)"
proof (intro conjI allI)
  fix V
  show "calculate_bounding_box (flatten_verts V) = spec_build V"
    by (rule calculate_bounding_box_refines)
next
  have "calculate_bounding_box [] = spec_build []"
    using calculate_bounding_box_refines [of "[]"] by (simp add: flatten_verts_def)
  then show "calculate_bounding_box [] = spec_default_box"
    by (simp add: spec_build_def)
next
  show "bb_max (calculate_bounding_box (flatten_verts cube_0_123)) = (1, 3, 2)"
    by (rule cube_max)
qed

section \<open>The element key\<close>

lemma create_element_key_eq:
  "create_element_key float_str t dims =
     (if positive_entries dims = [] then t @ ''_default''
      else t @ ''_'' @ py_join ''-''
             (map (dim_part float_str) (sort_key fst (positive_entries dims))))"
proof -
  have c: "filter (\<lambda>kv. dim_positive (snd kv)) (sort_key fst dims) =
           sort_key fst (positive_entries dims)"
    by (simp add: positive_entries_def filter_sort)
  have e: "sort_key fst (positive_entries dims) = [] \<longleftrightarrow> positive_entries dims = []"
    by (metis length_sort length_0_conv)
  show ?thesis
  proof (cases "dims = []")
    case True
    then show ?thesis by (simp add: create_element_key_def positive_entries_def)
  next
    case False
    then show ?thesis
      by (simp add: create_element_key_def Let_def c e)
  qed
qed

lemma positive_entries_all:
  "list_all (\<lambda>kv. dim_positive (snd kv)) dims \<Longrightarrow> positive_entries dims = dims"
  by (simp add: positive_entries_def list_all_iff)

lemma ex_wall:
  "create_element_key example_float_str ''IfcWall''
     [(''Width'', DFloat (2345 / 1000)), (''Length'', DFloat 1)] =
   ''IfcWall_Length:1.0-Width:2.345''"
  by (simp add: create_element_key_def dim_part_def example_float_str_def Let_def
      less_eq_char_def less_char_def)

text \<open>A width of \<open>0.004\<close> passes the test \<open>prop_value > 0\<close> of \<open>_get_element_dimensions\<close>
  and is rounded to \<open>0.0\<close>: the deriver does receive values that are not positive.\<close>

lemma small_dimension_rounds_to_zero:
  "foldl add_dimension [] (concat (dict_values [(''Pset_WallCommon'', [(''Width'', PFloat (4 / 1000))])])) =
   [(''Width'', DFloat 0)]"
  by (simp add: add_dimension_def dimension_props_def dict_values_def py_round2_def
      round_half_even_def Let_def)

text \<open>
  Claim C3, as stated, fails: the mapping \<open>{"Width": 0.0}\<close> is not empty, yet the key is
  \<open>"IfcWall_default"\<close> and not \<open>"IfcWall_Width:0.0"\<close>, because the comprehension keeps
  only the entries with \<open>value > 0\<close>.
\<close>

theorem C3_nonpositive_value_counterexample:
  "create_element_key example_float_str ''IfcWall'' [(''Width'', DFloat 0)] = ''IfcWall_default'' \<and>
   spec_derive example_float_str ''IfcWall'' [(''Width'', DFloat 0)] = ''IfcWall_Width:0.0'' \<and>
   create_element_key example_float_str ''IfcWall'' [(''Width'', DFloat 0)] \<noteq>
   spec_derive example_float_str ''IfcWall'' [(''Width'', DFloat 0)]"
  by (simp add: create_element_key_def spec_derive_def dim_part_def example_float_str_def)

text \<open>
  Claim C3, amended.  For every type and every dimensions mapping, \<open>_create_element_key\<close>
  returns \<open>"{type}_default"\<close> when no entry has a strictly positive value (so for the empty
  mapping), and otherwise \<open>"{type}_"\<close> followed by the \<open>"name:value"\<close> pairs of the
  entries with a strictly positive value, sorted by name and joined by \<open>-\<close>.  On a mapping
  whose values are all strictly positive this is the key of the specification, and
  \<open>derive("IfcWall", {"Width": 2.345, "Length": 1.0})\<close> is
  \<open>"IfcWall_Length:1.0-Width:2.345"\<close>.
\<close>

theorem C3_element_key_of_positive_entries:
  "create_element_key float_str t dims =
     (if positive_entries dims = [] then t @ ''_default''
      else t @ ''_'' @ py_join ''-''
             (map (dim_part float_str) (sort_key fst (positive_entries dims)))) \<and>
   (list_all (\<lambda>kv. dim_positive (snd kv)) dims \<longrightarrow>
      create_element_key float_str t dims = spec_derive float_str t dims) \<and>
   create_element_key float_str t [] = t @ ''_default'' \<and>
   create_element_key example_float_str ''IfcWall''
     [(''Width'', DFloat (2345 / 1000)), (''Length'', DFloat 1)] =
   ''IfcWall_Length:1.0-Width:2.345''"
proof (intro conjI impI)
  show "create_element_key float_str t dims =
     (if positive_entries dims = [] then t @ ''_default''
      else t @ ''_'' @ py_join ''-''
             (map (dim_part float_str) (sort_key fst (positive_entries dims))))"
    by (rule create_element_key_eq)
next
  assume "list_all (\<lambda>kv. dim_positive (snd kv)) dims"
  then have "positive_entries dims = dims" by (rule positive_entries_all)
  then show "create_element_key float_str t dims = spec_derive float_str t dims"
    by (simp add: create_element_key_eq spec_derive_def)
next
  show "create_element_key float_str t [] = t @ ''_default''"
    by (simp add: create_element_key_def)
next
  show "create_element_key example_float_str ''IfcWall''
     [(''Width'', DFloat (2345 / 1000)), (''Length'', DFloat 1)] =
   ''IfcWall_Length:1.0-Width:2.345''"
    by (rule ex_wall)
qed

theorem C3_element_key_witness:
  "list_all (\<lambda>kv. dim_positive (snd kv)) [(''Height'', DInt 3), (''Area'', DFloat 1)] \<and>
   create_element_key example_float_str ''IfcSlab'' [(''Height'', DInt 3), (''Area'', DFloat 1)] =
     spec_derive example_float_str ''IfcSlab'' [(''Height'', DInt 3), (''Area'', DFloat 1)] \<and>
   spec_derive example_float_str ''IfcSlab'' [(''Height'', DInt 3), (''Area'', DFloat 1)] =
     ''IfcSlab_Area:1.0-Height:3''"
proof -
  have p: "list_all (\<lambda>kv. dim_positive (snd kv)) [(''Height'', DInt 3), (''Area'', DFloat 1)]"
    by simp
  have s: "spec_derive example_float_str ''IfcSlab'' [(''Height'', DInt 3), (''Area'', DFloat 1)] =
     ''IfcSlab_Area:1.0-Height:3''"
    by (simp add: spec_derive_def dim_part_def example_float_str_def str_int_def digit_char_def
        less_eq_char_def less_char_def)
  from C3_element_key_of_positive_entries [of example_float_str "''IfcSlab''" "[(''Height'', DInt 3), (''Area'', DFloat 1)]"] p s
  show ?thesis by blast
qed

section \<open>The accumulator\<close>

lemma py_split_not_Nil: "py_split sep s \<noteq> []"
  by (induction s) (auto split: list.splits)

lemma py_index_split_0: "\<exists>w. py_index (py_split sep s) 0 = Inr w"
  using py_split_not_Nil [of sep s] by (simp add: py_index_def)

lemma dict_get_increment:
  "dict_get (dict_get (increment k n t) k' []) n' 0 =
     (if k' = k \<and> n' = n then dict_get (dict_get t k []) n 0 + 1
      else dict_get (dict_get t k' []) n' 0)"
  by (simp add: increment_def dict_get_def Let_def update_conv' split: option.splits)

lemma level_key_not_total:
  "level_key i \<noteq> ''total_count''" "''total_count'' \<noteq> level_key i"
  by (simp_all add: level_key_def)

lemma counter_update:
  "counter (update_quantity_table key lid p) k' n' =
     counter p k' n' +
       (if k' = key \<and> n' = ''total_count'' then 1 else 0) +
       (case lid of None \<Rightarrow> 0
        | Some i \<Rightarrow> if i \<noteq> 0 \<and> k' = key \<and> n' = level_key i then 1 else 0)"
  by (auto simp: counter_def update_quantity_table_def Let_def dict_get_increment
      level_key_not_total split: option.splits)

lemma table_K_112:
  "quantity_table (foldl (\<lambda>p l. update_quantity_table K (Some l) p) init_processor [1, 1, 2]) =
   [(K, [(''total_count'', 3), (''level_1_count'', 2), (''level_2_count'', 1)])]"
  by (simp add: update_quantity_table_def init_processor_def increment_def dict_get_def Let_def
      level_key_def str_int_def digit_char_def)

lemma collect_112:
  "collect_level_quantities [(''total_count'', 3), (''level_1_count'', 2), (''level_2_count'', 1)] [] =
   Inr [(1, 2), (2, 1)]"
  by (simp add: startswith_def endswith_def py_index_def parse_nat_def digit_of_def
      less_eq_char_def less_char_def)

lemma render_K_112:
  "\<exists>row. generate_quantity_table_data
      (foldl (\<lambda>p l. update_quantity_table K (Some l) p) init_processor [1, 1, 2]) =
      Inr \<lparr>table_data = [row], levels = []\<rparr> \<and> row_element_key row = K \<and>
      total_quantity row = 3 \<and> level_quantities row = [(1, 2), (2, 1)]"
proof -
  obtain w where w: "py_index (py_split CHR ''_'' K) 0 = Inr w"
    using py_index_split_0 by blast
  let ?p = "foldl (\<lambda>p l. update_quantity_table K (Some l) p) init_processor [1, 1, 2]"
  have l: "levels_data ?p = []"
    by (simp add: update_quantity_table_def init_processor_def Let_def)
  show ?thesis
    unfolding generate_quantity_table_data_def table_K_112 l
    by (simp add: make_row_def w collect_112 dict_get_def dict_values_def
        del: collect_level_quantities.simps)
qed

text \<open>
  Claim C4.  For every element key, level id and accumulator, one step of
  \<open>_update_quantity_table\<close> adds exactly 1 to \<open>table[key]["total_count"]\<close>; when a level
  id is present (the id of a storey of the file, which is never 0) it also adds exactly 1
  to \<open>table[key]["level_<id>_count"]\<close>; no other counter changes.  Accumulating a key \<open>K\<close>
  at the levels \<open>[1, 1, 2]\<close> into an empty accumulator and rendering gives one row, for
  \<open>K\<close>, with \<open>total_quantity = 3\<close> and \<open>level_quantities = {1: 2, 2: 1}\<close>.
\<close>

theorem C4_accumulation_step:
  "counter (update_quantity_table key lid p) key ''total_count'' =
     counter p key ''total_count'' + 1 \<and>
   (\<forall>i. lid = Some i \<and> i \<noteq> 0 \<longrightarrow>
      counter (update_quantity_table key lid p) key (level_key i) =
        counter p key (level_key i) + 1) \<and>
   (\<forall>k' n'. (k', n') \<noteq> (key, ''total_count'') \<and>
      (\<forall>i. lid = Some i \<and> i \<noteq> 0 \<longrightarrow> (k', n') \<noteq> (key, level_key i)) \<longrightarrow>
      counter (update_quantity_table key lid p) k' n' = counter p k' n') \<and>
   (\<exists>row. generate_quantity_table_data
      (foldl (\<lambda>p l. update_quantity_table K (Some l) p) init_processor [1, 1, 2]) =
      Inr \<lparr>table_data = [row], levels = []\<rparr> \<and> row_element_key row = K \<and>
      total_quantity row = 3 \<and> level_quantities row = [(1, 2), (2, 1)])"
proof (intro conjI allI impI)
  show "counter (update_quantity_table key lid p) key ''total_count'' =
     counter p key ''total_count'' + 1"
    by (auto simp: counter_update level_key_not_total split: option.splits)
next
  fix i assume "lid = Some i \<and> i \<noteq> 0"
  then show "counter (update_quantity_table key lid p) key (level_key i) =
        counter p key (level_key i) + 1"
    by (simp add: counter_update level_key_not_total)
next
  fix k' n'
  assume a: "(k', n') \<noteq> (key, ''total_count'') \<and>
      (\<forall>i. lid = Some i \<and> i \<noteq> 0 \<longrightarrow> (k', n') \<noteq> (key, level_key i))"
  then show "counter (update_quantity_table key lid p) k' n' = counter p k' n'"
    by (auto simp: counter_update split: option.splits)
next
  show "\<exists>row. generate_quantity_table_data
      (foldl (\<lambda>p l. update_quantity_table K (Some l) p) init_processor [1, 1, 2]) =
      Inr \<lparr>table_data = [row], levels = []\<rparr> \<and> row_element_key row = K \<and>
      total_quantity row = 3 \<and> level_quantities row = [(1, 2), (2, 1)]"
    by (rule render_K_112)
qed

theorem C4_accumulation_step_witness:
  "counter (update_quantity_table ''K'' (Some 7) init_processor) ''K'' ''total_count'' = 1 \<and>
   counter (update_quantity_table ''K'' (Some 7) init_processor) ''K'' (level_key 7) = 1 \<and>
   counter (update_quantity_table ''K'' (Some 7) init_processor) ''K'' (level_key 8) = 0"
proof -
  have z: "counter init_processor k n = 0" for k n
    by (simp add: counter_def init_processor_def dict_get_def)
  have d: "(''K'', level_key 8) \<noteq> (''K'', ''total_count'') \<and>
      (\<forall>i. Some 7 = Some i \<and> i \<noteq> 0 \<longrightarrow> (''K'', level_key 8) \<noteq> (''K'', level_key i))"
    by (simp add: level_key_def str_int_def digit_char_def)
  from C4_accumulation_step [of "''K''" "Some 7" init_processor "''K''"] z d
  show ?thesis by auto
qed

section \<open>The closest level\<close>

lemma py_min_key_first_least:
  "\<exists>i < length (x # xs).
     py_min_key key x xs = (x # xs) ! i \<and>
     (\<forall>j < length (x # xs). key ((x # xs) ! i) \<le> key ((x # xs) ! j)) \<and>
     (\<forall>j < i. key ((x # xs) ! i) < key ((x # xs) ! j))"
proof (induction xs rule: rev_induct)
  case Nil
  show ?case by (simp add: py_min_key_def)
next
  case (snoc y ys)
  let ?l = "x # ys"
  let ?r = "py_min_key key x ys"
  from snoc obtain i where i: "i < length ?l" "?r = ?l ! i"
    and le: "\<forall>j < length ?l. key (?l ! i) \<le> key (?l ! j)"
    and lt: "\<forall>j < i. key (?l ! i) < key (?l ! j)"
    by blast
  have app: "x # ys @ [y] = ?l @ [y]" by simp
  have step: "py_min_key key x (ys @ [y]) = (if key y < key ?r then y else ?r)"
    by (simp add: py_min_key_def)
  show ?case
  proof (cases "key y < key ?r")
    case True
    let ?n = "length ?l"
    have a: "?n < length (x # ys @ [y])" by simp
    have b: "(x # ys @ [y]) ! ?n = y" unfolding app by (simp only: nth_append_length)
    have c: "\<forall>j < length (x # ys @ [y]). key y \<le> key ((x # ys @ [y]) ! j)"
    proof (intro allI impI)
      fix j assume j: "j < length (x # ys @ [y])"
      show "key y \<le> key ((x # ys @ [y]) ! j)"
      proof (cases "j < ?n")
        case True
        then have "(x # ys @ [y]) ! j = ?l ! j" unfolding app by (simp only: nth_append if_True)
        moreover have "key (?l ! i) \<le> key (?l ! j)" using le True by blast
        ultimately show ?thesis using \<open>key y < key ?r\<close> i(2) by simp
      next
        case False
        then have "j = ?n" using j by simp
        then show ?thesis using b by simp
      qed
    qed
    have d: "\<forall>j < ?n. key y < key ((x # ys @ [y]) ! j)"
    proof (intro allI impI)
      fix j assume j: "j < ?n"
      then have "(x # ys @ [y]) ! j = ?l ! j" unfolding app by (simp only: nth_append if_True)
      moreover have "key (?l ! i) \<le> key (?l ! j)" using le j by blast
      ultimately show "key y < key ((x # ys @ [y]) ! j)" using True i(2) by simp
    qed
    have r: "py_min_key key x (ys @ [y]) = y" using step True by simp
    show ?thesis
    proof (intro exI [of _ ?n] conjI)
      show "?n < length (x # ys @ [y])" by (rule a)
      show "py_min_key key x (ys @ [y]) = (x # ys @ [y]) ! ?n" by (simp only: r b)
      show "\<forall>j < length (x # ys @ [y]). key ((x # ys @ [y]) ! ?n) \<le> key ((x # ys @ [y]) ! j)"
        using c by (simp only: b)
      show "\<forall>j < ?n. key ((x # ys @ [y]) ! ?n) < key ((x # ys @ [y]) ! j)"
        using d by (simp only: b)
    qed
  next
    case False
    have a: "i < length (x # ys @ [y])" using i(1) by simp
    have b: "(x # ys @ [y]) ! i = ?l ! i" unfolding app using i(1) by (simp only: nth_append if_True)
    have c: "\<forall>j < length (x # ys @ [y]). key (?l ! i) \<le> key ((x # ys @ [y]) ! j)"
    proof (intro allI impI)
      fix j assume j: "j < length (x # ys @ [y])"
      show "key (?l ! i) \<le> key ((x # ys @ [y]) ! j)"
      proof (cases "j < length ?l")
        case True
        then have "(x # ys @ [y]) ! j = ?l ! j" unfolding app by (simp only: nth_append if_True)
        then show ?thesis using le True by simp
      next
        case False
        then have "j = length ?l" using j by simp
        then have "(x # ys @ [y]) ! j = y" unfolding app by (simp only: nth_append_length)
        then show ?thesis using \<open>\<not> key y < key ?r\<close> i(2) by simp
      qed
    qed
    have d: "\<forall>j < i. key (?l ! i) < key ((x # ys @ [y]) ! j)"
    proof (intro allI impI)
      fix j assume j: "j < i"
      then have "j < length ?l" using i(1) by simp
      then have "(x # ys @ [y]) ! j = ?l ! j" unfolding app by (simp only: nth_append if_True)
      then show "key (?l ! i) < key ((x # ys @ [y]) ! j)" using lt j by simp
    qed
    have r: "py_min_key key x (ys @ [y]) = ?l ! i" using step False i(2) by simp
    show ?thesis
    proof (intro exI [of _ i] conjI)
      show "i < length (x # ys @ [y])" by (rule a)
      show "py_min_key key x (ys @ [y]) = (x # ys @ [y]) ! i" by (simp only: r b)
      show "\<forall>j < length (x # ys @ [y]). key ((x # ys @ [y]) ! i) \<le> key ((x # ys @ [y]) ! j)"
        using c by (simp only: b)
      show "\<forall>j < i. key ((x # ys @ [y]) ! i) < key ((x # ys @ [y]) ! j)"
        using d by (simp only: b)
    qed
  qed
qed

lemma find_closest_level_empty:
  "dict_values (levels_data p) = [] \<Longrightarrow> find_closest_level p z = None"
  by (simp add: find_closest_level_def)

lemma find_closest_level_first_least:
  assumes "dict_values (levels_data p) \<noteq> []"
  shows "\<exists>i < length (dict_values (levels_data p)).
     find_closest_level p z = Some (level_id (dict_values (levels_data p) ! i)) \<and>
     (\<forall>j < length (dict_values (levels_data p)).
        \<bar>z - level_elevation (dict_values (levels_data p) ! i)\<bar>
          \<le> \<bar>z - level_elevation (dict_values (levels_data p) ! j)\<bar>) \<and>
     (\<forall>j < i.
        \<bar>z - level_elevation (dict_values (levels_data p) ! i)\<bar>
          < \<bar>z - level_elevation (dict_values (levels_data p) ! j)\<bar>)"
proof -
  from assms obtain l ls where v: "dict_values (levels_data p) = l # ls"
    by (cases "dict_values (levels_data p)") auto
  let ?key = "\<lambda>level. \<bar>z - level_elevation level\<bar>"
  from py_min_key_first_least [of l ls ?key] obtain i where
    "i < length (l # ls)" "py_min_key ?key l ls = (l # ls) ! i"
    "\<forall>j < length (l # ls). ?key ((l # ls) ! i) \<le> ?key ((l # ls) ! j)"
    "\<forall>j < i. ?key ((l # ls) ! i) < ?key ((l # ls) ! j)"
    by blast
  then show ?thesis
    unfolding v find_closest_level_def by (intro exI [of _ i]) simp
qed

lemma example_closest:
  "find_closest_level \<lparr>levels_data = example_levels_data, quantity_table = []\<rparr> (34 / 10) = Some 20"
  by (simp add: find_closest_level_def example_levels_data_def dict_values_def py_min_key_def)

lemma example_classified:
  "get_element_level \<lparr>levels_data = example_levels_data, quantity_table = []\<rparr>
     (element_placed_at (34 / 10)) = Some 20"
  by (simp add: get_element_level_def level_from_container_def level_from_placement_def
      element_placed_at_def matrix_2_3_def py_index_def find_closest_level_def
      example_levels_data_def dict_values_def py_min_key_def)

text \<open>
  Claim C5.  \<open>_find_closest_level\<close> returns \<open>None\<close> on an empty level cache, without raising.
  On a non-empty cache it returns the id of the first level, in the iteration order of the
  cache, whose elevation has the least absolute difference to the Z coordinate: no level
  is closer and every earlier level is strictly farther.  With levels at the elevations
  0.0, 3.0 and 6.0, the height 3.4 gives the level at 3.0, also through
  \<open>_get_element_level\<close> for an element with no storey container.
\<close>

theorem C5_closest_level:
  "(dict_values (levels_data p) = [] \<longrightarrow> find_closest_level p z = None) \<and>
   (dict_values (levels_data p) \<noteq> [] \<longrightarrow>
      (\<exists>i < length (dict_values (levels_data p)).
         find_closest_level p z = Some (level_id (dict_values (levels_data p) ! i)) \<and>
         (\<forall>j < length (dict_values (levels_data p)).
            \<bar>z - level_elevation (dict_values (levels_data p) ! i)\<bar>
              \<le> \<bar>z - level_elevation (dict_values (levels_data p) ! j)\<bar>) \<and>
         (\<forall>j < i.
            \<bar>z - level_elevation (dict_values (levels_data p) ! i)\<bar>
              < \<bar>z - level_elevation (dict_values (levels_data p) ! j)\<bar>))) \<and>
   find_closest_level \<lparr>levels_data = example_levels_data, quantity_table = []\<rparr> (34 / 10) =
     Some 20 \<and>
   get_element_level \<lparr>levels_data = example_levels_data, quantity_table = []\<rparr>
     (element_placed_at (34 / 10)) = Some 20"
  using find_closest_level_empty [of p z] find_closest_level_first_least [of p z]
    example_closest example_classified
  by blast

theorem C5_closest_level_witness:
  "dict_values (levels_data \<lparr>levels_data = example_levels_data, quantity_table = []\<rparr>) \<noteq> [] \<and>
   (\<exists>i < 3. find_closest_level \<lparr>levels_data = example_levels_data, quantity_table = []\<rparr>
             (3 / 2) =
           Some (level_id (dict_values example_levels_data ! i))) \<and>
   find_closest_level \<lparr>levels_data = example_levels_data, quantity_table = []\<rparr> (3 / 2) =
     Some 10 \<and>
   find_closest_level \<lparr>levels_data = [], quantity_table = []\<rparr> (3 / 2) = None"
proof -
  let ?p = "\<lparr>levels_data = example_levels_data, quantity_table = []\<rparr>"
  have n: "dict_values (levels_data ?p) \<noteq> []"
    by (simp add: example_levels_data_def dict_values_def)
  have l: "length (dict_values (levels_data ?p)) = 3"
    by (simp add: example_levels_data_def dict_values_def)
  have v: "find_closest_level ?p (3 / 2) = Some 10"
    by (simp add: find_closest_level_def example_levels_data_def dict_values_def py_min_key_def)
  have e: "dict_values (levels_data \<lparr>levels_data = [], quantity_table = []\<rparr>) = []"
    by (simp add: dict_values_def)
  from C5_closest_level [of ?p "3 / 2"] n l
  have "\<exists>i < 3. find_closest_level ?p (3 / 2) = Some (level_id (dict_values example_levels_data ! i))"
    by auto
  moreover from C5_closest_level [of "\<lparr>levels_data = [], quantity_table = []\<rparr>" "3 / 2"] e
  have "find_closest_level \<lparr>levels_data = [], quantity_table = []\<rparr> (3 / 2) = None"
    by blast
  ultimately show ?thesis using n v by blast
qed

section \<open>The merge\<close>

lemma map_of_element_mapping_aux:
  "map_of (foldl (\<lambda>d element.
              if truthy_str (element_global_id element)
              then AList.update (element_global_id element)
                     (element_key element, element_level_id element) d
              else d) d0 els) gid =
   (case find (\<lambda>e. truthy_str (element_global_id e) \<and> element_global_id e = gid) (rev els) of
      None \<Rightarrow> map_of d0 gid
    | Some e \<Rightarrow> Some (element_key e, element_level_id e))"
  by (induction els rule: rev_induct) (auto simp: update_conv' split: option.splits)

lemma map_of_element_mapping:
  "map_of (element_mapping els) gid =
     map_option (\<lambda>e. (element_key e, element_level_id e)) (mapped_element els gid)"
  unfolding element_mapping_def mapped_element_def map_of_element_mapping_aux
  by (simp split: option.splits)

lemma enhance_length:
  "length (elements (enhance_geometry_with_element_data gd els)) = length (elements gd)"
  by (simp add: enhance_geometry_with_element_data_def Let_def)

lemma enhance_nth:
  "i < length (elements gd) \<Longrightarrow>
   elements (enhance_geometry_with_element_data gd els) ! i =
     enhance_element (element_mapping els) (elements gd ! i)"
  by (simp add: enhance_geometry_with_element_data_def Let_def)

lemma enhance_element_found:
  "mapped_element els (geom_id g) = Some e \<Longrightarrow>
   enh_element_key (enhance_element (element_mapping els) g) = element_key e \<and>
   enh_level_id (enhance_element (element_mapping els) g) = element_level_id e"
  by (simp add: enhance_element_def map_of_element_mapping)

lemma enhance_element_missing:
  "mapped_element els (geom_id g) = None \<Longrightarrow>
   enh_element_key (enhance_element (element_mapping els) g) =
     (case ifcType g of None \<Rightarrow> ''Unknown'' | Some t \<Rightarrow> t) @ ''_default'' \<and>
   enh_level_id (enhance_element (element_mapping els) g) = None"
  by (simp add: enhance_element_def map_of_element_mapping Let_def)

lemma enhanced_fields_enhance: "enhanced_fields (enhance_element m g) = geom_fields g"
  by (simp add: enhance_element_def enhanced_fields_def geom_fields_def Let_def
      split: option.splits)

text \<open>
  Claim C6.  The lookup of the merge holds, for a global id, the key and the level of the
  (last) processed element of that id, and holds nothing for an id no processed element
  has.  A geometry record whose id is in the lookup gets that element's \<open>element_key\<close> and
  \<open>level_id\<close>; a record whose id is absent gets \<open>"{ifcType}_default"\<close> and the level
  \<open>None\<close>.
\<close>

theorem C6_merge_by_identity:
  assumes "i < length (elements gd)"
  shows "(dom (map_of (element_mapping els)) =
            {gid. \<exists>e \<in> set els. truthy_str (element_global_id e) \<and> element_global_id e = gid}) \<and>
         (\<forall>e. mapped_element els (geom_id (elements gd ! i)) = Some e \<longrightarrow>
            map_of (element_mapping els) (geom_id (elements gd ! i)) =
              Some (element_key e, element_level_id e) \<and>
            enh_element_key (elements (enhance_geometry_with_element_data gd els) ! i) =
              element_key e \<and>
            enh_level_id (elements (enhance_geometry_with_element_data gd els) ! i) =
              element_level_id e) \<and>
         (map_of (element_mapping els) (geom_id (elements gd ! i)) = None \<longrightarrow>
            (\<forall>t. ifcType (elements gd ! i) = Some t \<longrightarrow>
               enh_element_key (elements (enhance_geometry_with_element_data gd els) ! i) =
                 t @ ''_default'') \<and>
            enh_level_id (elements (enhance_geometry_with_element_data gd els) ! i) = None)"
proof (intro conjI allI impI)
  show "dom (map_of (element_mapping els)) =
            {gid. \<exists>e \<in> set els. truthy_str (element_global_id e) \<and> element_global_id e = gid}"
  proof -
    have "map_of (element_mapping els) gid \<noteq> None \<longleftrightarrow>
          (\<exists>e \<in> set els. truthy_str (element_global_id e) \<and> element_global_id e = gid)" for gid
      unfolding map_of_element_mapping mapped_element_def
      by (auto simp: find_None_iff)
    then show ?thesis by (auto simp: dom_def)
  qed
next
  fix e assume e: "mapped_element els (geom_id (elements gd ! i)) = Some e"
  show "map_of (element_mapping els) (geom_id (elements gd ! i)) =
              Some (element_key e, element_level_id e)"
    by (simp add: map_of_element_mapping e)
  show "enh_element_key (elements (enhance_geometry_with_element_data gd els) ! i) = element_key e"
    using enhance_element_found [OF e] by (simp add: enhance_nth [OF assms])
  show "enh_level_id (elements (enhance_geometry_with_element_data gd els) ! i) = element_level_id e"
    using enhance_element_found [OF e] by (simp add: enhance_nth [OF assms])
next
  assume n: "map_of (element_mapping els) (geom_id (elements gd ! i)) = None"
  then have m: "mapped_element els (geom_id (elements gd ! i)) = None"
    by (simp add: map_of_element_mapping)
  show "enh_level_id (elements (enhance_geometry_with_element_data gd els) ! i) = None"
    using enhance_element_missing [OF m] by (simp add: enhance_nth [OF assms])
  fix t assume "ifcType (elements gd ! i) = Some t"
  then show "enh_element_key (elements (enhance_geometry_with_element_data gd els) ! i) =
                 t @ ''_default''"
    using enhance_element_missing [OF m] by (simp add: enhance_nth [OF assms])
qed

theorem C6_merge_by_identity_witness:
  "0 < length (elements example_geometry) \<and> 1 < length (elements example_geometry) \<and>
   mapped_element example_elements (geom_id (elements example_geometry ! 0)) =
     Some (example_elements ! 0) \<and>
   enh_element_key (elements (enhance_geometry_with_element_data example_geometry
      example_elements) ! 0) = ''IfcWall_default'' \<and>
   enh_level_id (elements (enhance_geometry_with_element_data example_geometry
      example_elements) ! 0) = Some 20 \<and>
   map_of (element_mapping example_elements) (geom_id (elements example_geometry ! 1)) = None \<and>
   enh_element_key (elements (enhance_geometry_with_element_data example_geometry
      example_elements) ! 1) = ''IfcSite_default'' \<and>
   enh_level_id (elements (enhance_geometry_with_element_data example_geometry
      example_elements) ! 1) = None"
proof -
  have l: "0 < length (elements example_geometry)" "1 < length (elements example_geometry)"
    by (simp_all add: example_geometry_def)
  have f: "mapped_element example_elements (geom_id (elements example_geometry ! 0)) =
     Some (example_elements ! 0)"
    by (simp add: mapped_element_def example_elements_def example_geometry_def)
  have k: "element_key (example_elements ! 0) = ''IfcWall_default''"
    "element_level_id (example_elements ! 0) = Some 20"
    by (simp_all add: example_elements_def)
  have n: "map_of (element_mapping example_elements) (geom_id (elements example_geometry ! 1)) = None"
    by (simp add: element_mapping_def example_elements_def example_geometry_def)
  have t: "ifcType (elements example_geometry ! 1) = Some ''IfcSite''"
    by (simp add: example_geometry_def)
  from C6_merge_by_identity [OF l(1), of example_elements] f k
  have a: "enh_element_key (elements (enhance_geometry_with_element_data example_geometry
      example_elements) ! 0) = ''IfcWall_default'' \<and>
   enh_level_id (elements (enhance_geometry_with_element_data example_geometry
      example_elements) ! 0) = Some 20"
    by simp
  from C6_merge_by_identity [OF l(2), of example_elements] n t
  have b: "enh_element_key (elements (enhance_geometry_with_element_data example_geometry
      example_elements) ! 1) = ''IfcSite_default'' \<and>
   enh_level_id (elements (enhance_geometry_with_element_data example_geometry
      example_elements) ! 1) = None"
    by simp
  from l f a n b show ?thesis by blast
qed

text \<open>
  Claim C10.  The merge changes nothing but the two fields it sets: the payload keeps its
  type, its \<open>totalElements\<close> and its metadata, it has as many records as before, in the
  same order, and every record keeps its \<open>type\<close>, \<open>id\<close>, \<open>name\<close>, \<open>boundingBox\<close> and
  \<open>ifcType\<close>.
\<close>

theorem C10_merge_frame:
  "model_type (enhance_geometry_with_element_data gd els) = model_type gd \<and>
   totalElements (enhance_geometry_with_element_data gd els) = totalElements gd \<and>
   metadata (enhance_geometry_with_element_data gd els) = metadata gd \<and>
   length (elements (enhance_geometry_with_element_data gd els)) = length (elements gd) \<and>
   map enhanced_fields (elements (enhance_geometry_with_element_data gd els)) =
     map geom_fields (elements gd)"
  by (simp add: enhance_geometry_with_element_data_def Let_def enhanced_fields_enhance)

section \<open>Levels\<close>

lemma get_level_elevation_unresolved:
  "elevation_unresolved s \<Longrightarrow> get_level_elevation s = 0"
  by (auto simp: elevation_unresolved_def get_level_elevation_def get_level_elevation_try_def
      split: option.splits sum.splits)

lemma get_level_elevation_placed_at_zero: "get_level_elevation (placed_at_zero s) = 0"
  by (simp add: placed_at_zero_def get_level_elevation_def get_level_elevation_try_def
      matrix_2_3_def py_index_def)

lemma level_data_placed_at_zero:
  "elevation_unresolved s \<Longrightarrow> level_data (placed_at_zero s) = level_data s"
  using get_level_elevation_placed_at_zero [of s]
  by (simp add: level_data_def get_level_elevation_unresolved) (simp add: placed_at_zero_def)

lemma level_data_in_levels:
  "s \<in> set (by_type_IfcBuildingStorey f) \<Longrightarrow> level_data s \<in> set (fst (get_building_levels f p))"
  by (simp add: get_building_levels_def Let_def)

lemma update_fresh: "k \<notin> fst ` set d \<Longrightarrow> AList.update k v d = d @ [(k, v)]"
  by (induction d) auto

lemma dict_by_id_aux:
  "distinct (map fst d @ map level_id ls) \<Longrightarrow>
   foldl (\<lambda>d l. AList.update (level_id l) l d) d ls = d @ map (\<lambda>l. (level_id l, l)) ls"
proof (induction ls arbitrary: d)
  case Nil
  show ?case by simp
next
  case (Cons l ls)
  from Cons.prems have f: "level_id l \<notin> fst ` set d" by auto
  from Cons.prems have "distinct (map fst (d @ [(level_id l, l)]) @ map level_id ls)" by auto
  from Cons.IH [OF this] show ?case by (simp add: update_fresh [OF f])
qed

lemma dict_by_id_distinct:
  "distinct (map level_id ls) \<Longrightarrow> dict_by_id ls = map (\<lambda>l. (level_id l, l)) ls"
  using dict_by_id_aux [of "[]" ls] by (simp add: dict_by_id_def)

lemma dict_values_dict_by_id:
  "distinct (map level_id ls) \<Longrightarrow> dict_values (dict_by_id ls) = ls"
  by (simp add: dict_by_id_distinct dict_values_def comp_def)

lemma level_id_level_data: "level_id (level_data s) = storey_id s"
  by (simp add: level_data_def)

lemma distinct_level_ids:
  assumes "distinct (map storey_id ss)"
  shows "distinct (map level_id (sort_key level_elevation (map level_data ss)))"
proof -
  have "mset (map level_id (sort_key level_elevation (map level_data ss))) = mset (map storey_id ss)"
    by (simp add: multiset.map_comp comp_def level_id_level_data)
  then show ?thesis using assms by (metis mset_eq_imp_distinct_iff)
qed

lemma cached_levels:
  assumes "distinct (map storey_id (by_type_IfcBuildingStorey f))"
  shows "dict_values (levels_data (snd (get_building_levels f p))) = fst (get_building_levels f p)"
  using dict_values_dict_by_id [OF distinct_level_ids [OF assms]]
  by (simp add: get_building_levels_def Let_def)

lemma cached_level_lookup:
  assumes d: "distinct (map storey_id (by_type_IfcBuildingStorey f))"
    and s: "s \<in> set (by_type_IfcBuildingStorey f)"
  shows "map_of (levels_data (snd (get_building_levels f p))) (storey_id s) = Some (level_data s)"
proof -
  let ?ls = "sort_key level_elevation (map level_data (by_type_IfcBuildingStorey f))"
  have dl: "distinct (map level_id ?ls)" by (rule distinct_level_ids [OF d])
  have c: "levels_data (snd (get_building_levels f p)) = map (\<lambda>l. (level_id l, l)) ?ls"
    by (simp add: get_building_levels_def Let_def dict_by_id_distinct [OF dl])
  have "(storey_id s, level_data s) \<in> set (map (\<lambda>l. (level_id l, l)) ?ls)"
    using s by (auto simp: level_id_level_data intro!: image_eqI [of _ _ "level_data s"])
  moreover have "distinct (map fst (map (\<lambda>l. (level_id l, l)) ?ls))"
    using dl by (simp add: comp_def)
  ultimately show ?thesis unfolding c by (rule map_of_is_SomeI [rotated])
qed

lemma levels_as_if_at_zero:
  "get_building_levels
     (f\<lparr>by_type_IfcBuildingStorey :=
          map (\<lambda>s. if elevation_unresolved s then placed_at_zero s else s)
            (by_type_IfcBuildingStorey f)\<rparr>) p =
   get_building_levels f p"
proof -
  have "level_data (if elevation_unresolved s then placed_at_zero s else s) = level_data s" for s
    by (simp add: level_data_placed_at_zero)
  then have "map level_data (map (\<lambda>s. if elevation_unresolved s then placed_at_zero s else s)
            (by_type_IfcBuildingStorey f)) = map level_data (by_type_IfcBuildingStorey f)"
    by (simp add: comp_def)
  then show ?thesis by (simp add: get_building_levels_def Let_def del: map_map)
qed

text \<open>
  Claim C9.  For a storey whose placement is absent, or resolves to \<open>None\<close>, or fails to
  resolve, \<open>_get_level_elevation\<close> returns 0.0.  The storey still yields a level, in the
  list \<open>get_building_levels\<close> returns and (storey ids being distinct) in the cache under its
  id, at the elevation 0.0; and the sorted list and the cache are those of the file in which
  every such storey is placed at the height zero, so sorting and classification treat it as
  a level at height zero.
\<close>

theorem C9_unresolved_elevation_is_zero:
  assumes "s \<in> set (by_type_IfcBuildingStorey f)" and "elevation_unresolved s"
  shows "get_level_elevation s = 0 \<and>
         level_data s \<in> set (fst (get_building_levels f p)) \<and>
         level_id (level_data s) = storey_id s \<and>
         level_elevation (level_data s) = 0 \<and>
         (distinct (map storey_id (by_type_IfcBuildingStorey f)) \<longrightarrow>
            map_of (levels_data (snd (get_building_levels f p))) (storey_id s) =
              Some (level_data s)) \<and>
         get_building_levels
           (f\<lparr>by_type_IfcBuildingStorey :=
                map (\<lambda>s. if elevation_unresolved s then placed_at_zero s else s)
                  (by_type_IfcBuildingStorey f)\<rparr>) p =
         get_building_levels f p"
proof (intro conjI impI)
  show "get_level_elevation s = 0"
    by (rule get_level_elevation_unresolved [OF assms(2)])
  then show "level_elevation (level_data s) = 0"
    by (simp add: level_data_def)
  show "level_data s \<in> set (fst (get_building_levels f p))"
    by (rule level_data_in_levels [OF assms(1)])
  show "level_id (level_data s) = storey_id s"
    by (rule level_id_level_data)
  show "get_building_levels
           (f\<lparr>by_type_IfcBuildingStorey :=
                map (\<lambda>s. if elevation_unresolved s then placed_at_zero s else s)
                  (by_type_IfcBuildingStorey f)\<rparr>) p =
         get_building_levels f p"
    by (rule levels_as_if_at_zero)
next
  assume "distinct (map storey_id (by_type_IfcBuildingStorey f))"
  then show "map_of (levels_data (snd (get_building_levels f p))) (storey_id s) =
              Some (level_data s)"
    using assms(1) by (rule cached_level_lookup)
qed

theorem C9_unresolved_elevation_witness:
  "example_storeys ! 1 \<in> set (by_type_IfcBuildingStorey example_file) \<and>
   elevation_unresolved (example_storeys ! 1) \<and>
   distinct (map storey_id (by_type_IfcBuildingStorey example_file)) \<and>
   get_level_elevation (example_storeys ! 1) = 0 \<and>
   map_of (levels_data (snd (get_building_levels example_file init_processor))) 2 =
     Some (level_data (example_storeys ! 1)) \<and>
   map level_id (fst (get_building_levels example_file init_processor)) = [2, 1] \<and>
   map level_elevation (fst (get_building_levels example_file init_processor)) = [0, 3] \<and>
   find_closest_level (snd (get_building_levels example_file init_processor)) (1 / 5) = Some 2"
proof -
  have m: "example_storeys ! 1 \<in> set (by_type_IfcBuildingStorey example_file)"
    by (simp add: example_file_def example_storeys_def)
  have u: "elevation_unresolved (example_storeys ! 1)"
    by (simp add: example_storeys_def elevation_unresolved_def)
  have d: "distinct (map storey_id (by_type_IfcBuildingStorey example_file))"
    by (simp add: example_file_def example_storeys_def)
  have i: "storey_id (example_storeys ! 1) = 2"
    by (simp add: example_storeys_def)
  have e: "map level_elevation (map level_data example_storeys) = [3, 0]"
    by (simp add: example_storeys_def level_data_def get_level_elevation_def
        get_level_elevation_try_def matrix_2_3_def py_index_def)
  have l: "fst (get_building_levels example_file init_processor) =
     [level_data (example_storeys ! 1), level_data (example_storeys ! 0)]"
    using e by (simp add: get_building_levels_def example_file_def Let_def example_storeys_def)
  have li: "map level_id (fst (get_building_levels example_file init_processor)) = [2, 1]"
    unfolding l by (simp add: level_id_level_data example_storeys_def)
  have le: "map level_elevation (fst (get_building_levels example_file init_processor)) = [0, 3]"
    unfolding l using e by (simp add: example_storeys_def)
  have c: "dict_values (levels_data (snd (get_building_levels example_file init_processor))) =
     [level_data (example_storeys ! 1), level_data (example_storeys ! 0)]"
    using cached_levels [OF d, of init_processor] l by simp
  have f: "find_closest_level (snd (get_building_levels example_file init_processor)) (1 / 5) = Some 2"
    using li le unfolding l find_closest_level_def c
    by (simp add: py_min_key_def)
  from C9_unresolved_elevation_is_zero [OF m u, of init_processor] d i li le f m u
  show ?thesis by simp
qed

section \<open>Counter names are written and read back\<close>

lemma digit_char_cases:
  "d < 10 \<Longrightarrow> d = 0 \<or> d = 1 \<or> d = 2 \<or> d = 3 \<or> d = 4 \<or> d = 5 \<or> d = 6 \<or> d = 7 \<or> d = 8 \<or> d = (9::nat)"
  by arith

lemma digit_of_digit_char: "d < 10 \<Longrightarrow> digit_of (digit_char d) = Some d"
  using digit_char_cases [of d]
  by (auto simp: digit_of_def digit_char_def less_eq_char_def)

lemma digit_char_not_special:
  "d < 10 \<Longrightarrow> digit_char d \<noteq> CHR ''_'' \<and> digit_char d \<noteq> CHR ''-'' \<and> digit_char d \<noteq> CHR ''+''"
  using digit_char_cases [of d]
  by (auto simp: digit_char_def)

lemma parse_digits_append:
  "parse_digits acc (s @ t) =
     (case parse_digits acc s of None \<Rightarrow> None | Some a \<Rightarrow> parse_digits a t)"
  by (induction s arbitrary: acc) (auto split: option.splits)

lemma parse_digits_str_nat: "parse_digits 0 (str_nat n) = Some n"
proof (induction n rule: str_nat.induct)
  case (1 n)
  show ?case
  proof (cases "n < 10")
    case True
    then have "str_nat n = [digit_char n]" by (subst str_nat.simps) simp
    then show ?thesis using True by (simp add: digit_of_digit_char del: str_nat.simps)
  next
    case False
    have m: "n mod 10 < 10" by simp
    have "str_nat n = str_nat (n div 10) @ [digit_char (n mod 10)]"
      using False by (subst str_nat.simps) simp
    then show ?thesis
      using 1 [OF False]
      by (simp add: parse_digits_append digit_of_digit_char [OF m] del: str_nat.simps)
  qed
qed

lemma str_nat_chars: "c \<in> set (str_nat n) \<Longrightarrow> \<exists>d < 10. c = digit_char d"
proof (induction n rule: str_nat.induct)
  case (1 n)
  show ?case
  proof (cases "n < 10")
    case True
    then have "str_nat n = [digit_char n]" by (subst str_nat.simps) simp
    then have "c = digit_char n" using "1.prems" by (simp del: str_nat.simps)
    then show ?thesis using True by blast
  next
    case False
    have m: "n mod 10 < 10" by simp
    have "str_nat n = str_nat (n div 10) @ [digit_char (n mod 10)]"
      using False by (subst str_nat.simps) simp
    then have "c \<in> set (str_nat (n div 10)) \<or> c = digit_char (n mod 10)"
      using "1.prems" by (auto simp del: str_nat.simps)
    then show ?thesis using "1.IH" [OF False] m by blast
  qed
qed

lemma str_nat_not_Nil: "str_nat n \<noteq> []"
  by (subst str_nat.simps) simp

lemma parse_nat_str_nat: "parse_nat (str_nat n) = Some n"
  by (simp add: parse_nat_def str_nat_not_Nil parse_digits_str_nat del: str_nat.simps)

lemma py_int_str_int: "py_int (str_int i) = Some i"
proof (cases "i < 0")
  case True
  then show ?thesis by (simp add: str_int_def parse_nat_str_nat del: str_nat.simps)
next
  case False
  obtain c cs where s: "str_nat (nat i) = c # cs"
    using str_nat_not_Nil [of "nat i"] by (cases "str_nat (nat i)") (auto simp del: str_nat.simps)
  then have "c \<in> set (str_nat (nat i))" by (simp del: str_nat.simps)
  then obtain d where "d < 10" "c = digit_char d" using str_nat_chars by blast
  then have "c \<noteq> CHR ''-''" "c \<noteq> CHR ''+''" using digit_char_not_special by auto
  moreover have "parse_nat (c # cs) = Some (nat i)"
    using parse_nat_str_nat [of "nat i"] s by (simp del: str_nat.simps)
  ultimately show ?thesis using False by (simp add: str_int_def s del: str_nat.simps)
qed

lemma underscore_not_in_str_int: "CHR ''_'' \<notin> set (str_int i)"
proof
  assume a: "CHR ''_'' \<in> set (str_int i)"
  then have "CHR ''_'' \<in> set (str_nat (nat (- i))) \<or> CHR ''_'' \<in> set (str_nat (nat i))"
    by (auto simp: str_int_def simp del: str_nat.simps split: if_splits)
  then obtain d where "d < 10" "CHR ''_'' = digit_char d" using str_nat_chars by blast
  then show False using digit_char_not_special by metis
qed

lemma py_split_no_sep: "sep \<notin> set s \<Longrightarrow> py_split sep s = [s]"
  by (induction s) auto

lemma py_split_append:
  "sep \<notin> set a \<Longrightarrow> py_split sep (a @ sep # b) = a # py_split sep b"
  by (induction a) auto

lemma py_split_level_key:
  "py_split CHR ''_'' (level_key i) = [''level'', str_int i, ''count'']"
proof -
  have "py_split CHR ''_'' (str_int i @ CHR ''_'' # ''count'') = [str_int i, ''count'']"
    using py_split_append [OF underscore_not_in_str_int, of i "''count''"]
    by (simp del: str_nat.simps)
  moreover have "level_key i = ''level'' @ CHR ''_'' # (str_int i @ CHR ''_'' # ''count'')"
    by (simp add: level_key_def)
  ultimately show ?thesis
    using py_split_append [of "CHR ''_''" "''level''" "str_int i @ CHR ''_'' # ''count''"]
    by (simp del: str_nat.simps)
qed

lemma level_key_affixes:
  "startswith (level_key i) ''level_''" "endswith (level_key i) ''_count''"
  by (simp_all add: startswith_def endswith_def level_key_def del: str_nat.simps)

lemma total_count_not_level: "\<not> startswith ''total_count'' ''level_''"
  by (simp add: startswith_def)

lemma level_key_inj: "level_key i = level_key j \<Longrightarrow> i = j"
proof -
  assume "level_key i = level_key j"
  then have "py_split CHR ''_'' (level_key i) = py_split CHR ''_'' (level_key j)" by simp
  then have "str_int i = str_int j" by (simp add: py_split_level_key del: str_nat.simps)
  then have "py_int (str_int i) = py_int (str_int j)" by (simp del: str_nat.simps)
  then show "i = j" by (simp add: py_int_str_int del: str_nat.simps)
qed

section \<open>Rendering never fails on an accumulated table\<close>

lemma set_update_subset: "set (AList.update k v al) \<subseteq> insert (k, v) (set al)"
  by (induction al) auto

lemma counters_wf_update:
  assumes "counters_wf q" and "n = ''total_count'' \<or> n \<in> range level_key"
  shows "counters_wf (AList.update n v q)"
proof -
  have "\<forall>nv \<in> set (AList.update n v q). fst nv = ''total_count'' \<or> fst nv \<in> range level_key"
    using set_update_subset [of n v q] assms by (auto simp: counters_wf_def list_all_iff)
  then show ?thesis
    using assms(1) by (simp add: counters_wf_def list_all_iff distinct_update)
qed

lemma counters_wf_Nil: "counters_wf []"
  by (simp add: counters_wf_def)

lemma table_wf_lookup: "table_wf t \<Longrightarrow> counters_wf (dict_get t k [])"
proof -
  assume w: "table_wf t"
  show ?thesis
  proof (cases "map_of t k")
    case None
    then show ?thesis by (simp add: dict_get_def counters_wf_Nil)
  next
    case (Some q)
    then have "(k, q) \<in> set t" by (rule map_of_SomeD)
    then show ?thesis using w Some by (auto simp: dict_get_def table_wf_def list_all_iff)
  qed
qed

lemma table_wf_increment:
  assumes "table_wf t" and "n = ''total_count'' \<or> n \<in> range level_key"
  shows "table_wf (increment k n t)"
proof -
  let ?q = "AList.update n (dict_get (dict_get t k []) n 0 + 1) (dict_get t k [])"
  have q: "counters_wf ?q"
    by (rule counters_wf_update [OF table_wf_lookup [OF assms(1)] assms(2)])
  have "\<forall>kq \<in> set (AList.update k ?q t). counters_wf (snd kq)"
    using set_update_subset [of k ?q t] assms(1) q by (auto simp: table_wf_def list_all_iff)
  then show ?thesis
    using assms(1) by (simp add: increment_def Let_def table_wf_def list_all_iff distinct_update)
qed

lemma table_wf_update_quantity_table:
  "table_wf (quantity_table p) \<Longrightarrow> table_wf (quantity_table (update_quantity_table k l p))"
  by (auto simp: update_quantity_table_def Let_def table_wf_increment split: option.splits)

lemma levels_data_update_quantity_table [simp]:
  "levels_data (update_quantity_table k l p) = levels_data p"
  by (simp add: update_quantity_table_def Let_def)

lemma accumulate_snoc:
  "accumulate (steps @ [st]) p = update_quantity_table (fst st) (snd st) (accumulate steps p)"
  by (simp add: accumulate_def)

lemma table_wf_accumulate:
  "table_wf (quantity_table p) \<Longrightarrow> table_wf (quantity_table (accumulate steps p))"
  by (induction steps rule: rev_induct)
     (simp_all add: accumulate_snoc table_wf_update_quantity_table, simp add: accumulate_def)

lemma levels_data_accumulate [simp]: "levels_data (accumulate steps p) = levels_data p"
  by (induction steps rule: rev_induct) (simp_all add: accumulate_snoc, simp add: accumulate_def)

text \<open>The level quantities that the inner loop collects, as a map\<close>

lemma collect_level_quantities_wf:
  assumes "counters_wf q"
  shows "\<exists>lq'. collect_level_quantities q lq = Inr lq' \<and>
           (\<forall>i. map_of lq' i =
              (case map_of q (level_key i) of Some v \<Rightarrow> Some v | None \<Rightarrow> map_of lq i))"
  using assms
proof (induction q arbitrary: lq)
  case Nil
  show ?case by simp
next
  case (Cons nv q)
  obtain n v where nv: "nv = (n, v)" by (cases nv)
  from Cons.prems have wf: "counters_wf q" and fresh: "n \<notin> fst ` set q"
    and name: "n = ''total_count'' \<or> n \<in> range level_key"
    by (auto simp: counters_wf_def nv)
  show ?case
  proof (cases "n = ''total_count''")
    case True
    from Cons.IH [OF wf, of lq] obtain lq' where
      "collect_level_quantities q lq = Inr lq'"
      "\<forall>i. map_of lq' i = (case map_of q (level_key i) of Some v \<Rightarrow> Some v | None \<Rightarrow> map_of lq i)"
      by blast
    then show ?thesis
      using True by (simp add: nv total_count_not_level level_key_not_total)
  next
    case False
    then obtain j where j: "n = level_key j" using name by auto
    from Cons.IH [OF wf, of "AList.update j v lq"] obtain lq' where
      c: "collect_level_quantities q (AList.update j v lq) = Inr lq'" and
      m: "\<forall>i. map_of lq' i =
            (case map_of q (level_key i) of Some v \<Rightarrow> Some v
             | None \<Rightarrow> map_of (AList.update j v lq) i)"
      by blast
    have none: "map_of q (level_key j) = None"
      using fresh j by (simp add: map_of_eq_None_iff)
    have "\<forall>i. map_of lq' i =
       (case map_of ((level_key j, v) # q) (level_key i) of Some v \<Rightarrow> Some v | None \<Rightarrow> map_of lq i)"
    proof
      fix i
      show "map_of lq' i =
       (case map_of ((level_key j, v) # q) (level_key i) of Some v \<Rightarrow> Some v | None \<Rightarrow> map_of lq i)"
      proof (cases "i = j")
        case True
        then show ?thesis using m none by (simp add: update_conv' split: option.splits)
      next
        case False
        then have "level_key j \<noteq> level_key i" using level_key_inj by blast
        then show ?thesis using m False by (simp add: update_conv' split: option.splits)
      qed
    qed
    then show ?thesis
      using c by (simp add: nv j level_key_affixes py_split_level_key py_index_def py_int_str_int)
  qed
qed

lemma make_row_wf:
  assumes "counters_wf q"
  shows "\<exists>row. make_row k q = Inr row \<and> row_element_key row = k \<and>
           row_element_type row = hd (py_split CHR ''_'' k) \<and>
           unit_of_measure row = dict_get UNIT_MAPPINGS (hd (py_split CHR ''_'' k)) ''units'' \<and>
           total_quantity row = dict_get q ''total_count'' 0 \<and>
           (\<forall>i. map_of (level_quantities row) i = map_of q (level_key i))"
proof -
  have h: "py_index (py_split CHR ''_'' k) 0 = Inr (hd (py_split CHR ''_'' k))"
    using py_split_not_Nil [of "CHR ''_''" k]
    by (cases "py_split CHR ''_'' k") (simp_all add: py_index_def)
  from collect_level_quantities_wf [OF assms, of "[]"] obtain lq where
    "collect_level_quantities q [] = Inr lq"
    "\<forall>i. map_of lq i = (case map_of q (level_key i) of Some v \<Rightarrow> Some v | None \<Rightarrow> map_of [] i)"
    by blast
  then show ?thesis
    by (simp add: make_row_def h split: option.splits)
qed

lemma make_rows_wf:
  assumes "list_all (\<lambda>kq. counters_wf (snd kq)) t"
  shows "\<exists>rows. make_rows t acc = Inr (acc @ rows) \<and>
           list_all2 (\<lambda>kq row. make_row (fst kq) (snd kq) = Inr row) t rows"
  using assms
proof (induction t arbitrary: acc)
  case Nil
  show ?case by simp
next
  case (Cons kq t)
  obtain k q where kq: "kq = (k, q)" by (cases kq)
  from Cons.prems have "counters_wf q" and t: "list_all (\<lambda>kq. counters_wf (snd kq)) t"
    by (simp_all add: kq)
  then obtain row where row: "make_row k q = Inr row" using make_row_wf by blast
  from Cons.IH [OF t, of "acc @ [row]"] obtain rows where
    "make_rows t (acc @ [row]) = Inr ((acc @ [row]) @ rows)"
    "list_all2 (\<lambda>kq row. make_row (fst kq) (snd kq) = Inr row) t rows"
    by blast
  then show ?case
    by (intro exI [of _ "row # rows"]) (simp add: kq row)
qed

lemma generate_wf:
  assumes "table_wf (quantity_table p)"
  shows "\<exists>rows. list_all2 (\<lambda>kq row. make_row (fst kq) (snd kq) = Inr row) (quantity_table p) rows \<and>
           generate_quantity_table_data p =
             Inr \<lparr>table_data = sort_key row_element_type rows,
                  levels = (if quantity_table p = [] then dict_values (levels_data p)
                            else sort_key level_elevation (dict_values (levels_data p)))\<rparr>"
proof -
  from assms have "list_all (\<lambda>kq. counters_wf (snd kq)) (quantity_table p)"
    by (simp add: table_wf_def)
  from make_rows_wf [OF this, of "[]"] obtain rows where
    r: "make_rows (quantity_table p) [] = Inr rows"
    "list_all2 (\<lambda>kq row. make_row (fst kq) (snd kq) = Inr row) (quantity_table p) rows"
    by auto
  show ?thesis
  proof (cases "quantity_table p = []")
    case True
    then have "rows = []" using r(2) by simp
    then show ?thesis using True r(2) by (simp add: generate_quantity_table_data_def)
  next
    case False
    then show ?thesis using r by (intro exI [of _ rows]) (simp add: generate_quantity_table_data_def)
  qed
qed

lemma table_wf_init: "table_wf (quantity_table init_processor)"
  by (simp add: init_processor_def table_wf_def)

lemma quantity_table_get_building_levels [simp]:
  "quantity_table (snd (get_building_levels f p)) = quantity_table p"
  by (simp add: get_building_levels_def Let_def)

lemma sorted_building_levels:
  "sorted (map level_elevation (fst (get_building_levels f p)))"
  by (simp add: get_building_levels_def Let_def)

text \<open>
  Claim C7.  On an empty accumulator \<open>generate_quantity_table_data\<close> returns, without
  raising, no rows and the cached levels, whatever the cache holds.  After
  \<open>get_building_levels\<close> on a file (its storey ids distinct) and any run of accumulation
  steps, empty or not, it returns a payload whose levels are the levels of the file sorted
  by elevation ascending; on a fresh processor the levels are the empty list.
\<close>

theorem C7_render_levels_sorted:
  assumes "distinct (map storey_id (by_type_IfcBuildingStorey f))"
  shows "(quantity_table p = [] \<longrightarrow>
            generate_quantity_table_data p =
              Inr \<lparr>table_data = [], levels = dict_values (levels_data p)\<rparr>) \<and>
         generate_quantity_table_data (snd (get_building_levels f init_processor)) =
           Inr \<lparr>table_data = [], levels = fst (get_building_levels f init_processor)\<rparr> \<and>
         (\<exists>d. generate_quantity_table_data
                 (accumulate steps (snd (get_building_levels f init_processor))) = Inr d \<and>
              levels d = fst (get_building_levels f init_processor) \<and>
              sorted (map level_elevation (levels d))) \<and>
         (\<exists>d. generate_quantity_table_data (accumulate steps init_processor) = Inr d \<and>
              levels d = [])"
proof (intro conjI impI)
  let ?p1 = "snd (get_building_levels f init_processor)"
  let ?ls = "fst (get_building_levels f init_processor)"
  have c: "dict_values (levels_data ?p1) = ?ls" by (rule cached_levels [OF assms])
  have s: "sorted (map level_elevation ?ls)" by (rule sorted_building_levels)
  have q1: "quantity_table init_processor = []" by (simp add: init_processor_def)
  show "generate_quantity_table_data ?p1 = Inr \<lparr>table_data = [], levels = ?ls\<rparr>"
    by (simp add: generate_quantity_table_data_def c q1)
  have w: "table_wf (quantity_table (accumulate steps ?p1))"
    by (rule table_wf_accumulate) (simp add: table_wf_init)
  from generate_wf [OF w] obtain rows where
    "generate_quantity_table_data (accumulate steps ?p1) =
       Inr \<lparr>table_data = sort_key row_element_type rows,
            levels = (if quantity_table (accumulate steps ?p1) = [] then ?ls
                      else sort_key level_elevation ?ls)\<rparr>"
    by (auto simp: c)
  then show "\<exists>d. generate_quantity_table_data (accumulate steps ?p1) = Inr d \<and>
              levels d = ?ls \<and> sorted (map level_elevation (levels d))"
    using s by (auto simp: sort_key_id_if_sorted)
  have w0: "table_wf (quantity_table (accumulate steps init_processor))"
    by (rule table_wf_accumulate) (rule table_wf_init)
  from generate_wf [OF w0] obtain rows0 where
    "generate_quantity_table_data (accumulate steps init_processor) =
       Inr \<lparr>table_data = sort_key row_element_type rows0,
            levels = (if quantity_table (accumulate steps init_processor) = []
                      then dict_values (levels_data init_processor)
                      else sort_key level_elevation (dict_values (levels_data init_processor)))\<rparr>"
    by auto
  then show "\<exists>d. generate_quantity_table_data (accumulate steps init_processor) = Inr d \<and>
              levels d = []"
    by (auto simp: init_processor_def dict_values_def)
next
  assume "quantity_table p = []"
  then show "generate_quantity_table_data p =
              Inr \<lparr>table_data = [], levels = dict_values (levels_data p)\<rparr>"
    by (simp add: generate_quantity_table_data_def)
qed

theorem C7_render_levels_sorted_witness:
  "distinct (map storey_id (by_type_IfcBuildingStorey example_file)) \<and>
   quantity_table (snd (get_building_levels example_file init_processor)) = [] \<and>
   generate_quantity_table_data (snd (get_building_levels example_file init_processor)) =
     Inr \<lparr>table_data = [], levels = fst (get_building_levels example_file init_processor)\<rparr> \<and>
   map level_elevation (fst (get_building_levels example_file init_processor)) = [0, 3] \<and>
   (\<exists>d. generate_quantity_table_data
           (accumulate [(''IfcWall_default'', Some 1)]
              (snd (get_building_levels example_file init_processor))) = Inr d \<and>
        map level_elevation (levels d) = [0, 3])"
proof -
  have d: "distinct (map storey_id (by_type_IfcBuildingStorey example_file))"
    by (simp add: example_file_def example_storeys_def)
  have q: "quantity_table (snd (get_building_levels example_file init_processor)) = []"
    by (simp add: init_processor_def)
  have e: "map level_elevation (fst (get_building_levels example_file init_processor)) = [0, 3]"
    by (simp add: get_building_levels_def example_file_def Let_def example_storeys_def
        level_data_def get_level_elevation_def get_level_elevation_try_def matrix_2_3_def
        py_index_def)
  note t = C7_render_levels_sorted [OF d, of "snd (get_building_levels example_file init_processor)"
      "[(''IfcWall_default'', Some 1)]"]
  from t have a: "generate_quantity_table_data (snd (get_building_levels example_file init_processor)) =
     Inr \<lparr>table_data = [], levels = fst (get_building_levels example_file init_processor)\<rparr>"
    by blast
  from t obtain r where
    "generate_quantity_table_data
           (accumulate [(''IfcWall_default'', Some 1)]
              (snd (get_building_levels example_file init_processor))) = Inr r"
    "levels r = fst (get_building_levels example_file init_processor)"
    by blast
  then have b: "\<exists>d. generate_quantity_table_data
           (accumulate [(''IfcWall_default'', Some 1)]
              (snd (get_building_levels example_file init_processor))) = Inr d \<and>
        map level_elevation (levels d) = [0, 3]"
    using e by simp
  from d q a e b show ?thesis by blast
qed

section \<open>The quantity table does not depend on the order of enumeration\<close>

lemma table_view_increment:
  "table_view (increment k n t) = increment_view k n (table_view t)"
  by (rule ext)
     (auto simp: table_view_def increment_def increment_view_def Let_def update_conv' dict_get_def
        split: option.splits)

lemma table_view_update_quantity_table:
  "table_view (quantity_table (update_quantity_table k l p)) =
     step_view (k, l) (table_view (quantity_table p))"
  by (simp add: update_quantity_table_def step_view_def Let_def table_view_increment
      split: option.splits)

lemma increment_view_commute:
  "increment_view k n (increment_view k' n' V) = increment_view k' n' (increment_view k n V)"
  by (rule ext) (auto simp: increment_view_def Let_def fun_eq_iff split: option.splits)

lemma step_view_commute: "step_view a (step_view b V) = step_view b (step_view a V)"
  by (simp add: step_view_def increment_view_commute split: option.splits)

lemma table_view_accumulate:
  "table_view (quantity_table (accumulate steps p)) =
     fold step_view steps (table_view (quantity_table p))"
proof (induction steps rule: rev_induct)
  case Nil
  show ?case by (simp add: accumulate_def)
next
  case (snoc st steps)
  show ?case
    by (cases st) (simp add: accumulate_snoc table_view_update_quantity_table snoc.IH)
qed

lemma table_view_accumulate_mset:
  assumes "mset steps' = mset steps"
  shows "table_view (quantity_table (accumulate steps' p)) =
         table_view (quantity_table (accumulate steps p))"
proof -
  have "fold step_view steps' = fold step_view steps"
    by (rule fold_multiset_equiv) (auto simp: fun_eq_iff step_view_commute assms)
  then show ?thesis by (simp add: table_view_accumulate)
qed

lemma row_content_make_row:
  assumes "table_wf t" and "(k, q) \<in> set t" and "make_row k q = Inr row"
  shows "row_content row = row_of_view (table_view t) k"
proof -
  from assms(1,2) have wf: "counters_wf q" by (auto simp: table_wf_def list_all_iff)
  from assms(1,2) have m: "map_of t k = Some q" by (simp add: table_wf_def)
  from make_row_wf [OF wf, of k] assms(3) have
    r: "row_element_key row = k" "row_element_type row = hd (py_split CHR ''_'' k)"
      "unit_of_measure row = dict_get UNIT_MAPPINGS (hd (py_split CHR ''_'' k)) ''units''"
      "total_quantity row = dict_get q ''total_count'' 0"
      "\<forall>i. map_of (level_quantities row) i = map_of q (level_key i)"
    by auto
  have "map_of (level_quantities row) = (\<lambda>i. map_of q (level_key i))"
    using r(5) by (simp add: fun_eq_iff)
  then show ?thesis
    by (simp add: row_content_def row_of_view_def table_view_def m r Let_def dict_get_def)
qed

lemma row_contents_of_table:
  assumes "table_wf t"
    and "list_all2 (\<lambda>kq row. make_row (fst kq) (snd kq) = Inr row) t rows"
  shows "map row_content rows = map (row_of_view (table_view t)) (map fst t)"
proof (rule nth_equalityI)
  from assms(2) have l: "length rows = length t" by (simp add: list_all2_lengthD)
  then show "length (map row_content rows) = length (map (row_of_view (table_view t)) (map fst t))"
    by simp
  fix n assume "n < length (map row_content rows)"
  then have n: "n < length t" using l by simp
  then have "make_row (fst (t ! n)) (snd (t ! n)) = Inr (rows ! n)"
    using assms(2) by (simp add: list_all2_conv_all_nth)
  moreover have "(fst (t ! n), snd (t ! n)) \<in> set t" using n by simp
  ultimately have "row_content (rows ! n) = row_of_view (table_view t) (fst (t ! n))"
    using row_content_make_row [OF assms(1)] by blast
  then show "map row_content rows ! n = map (row_of_view (table_view t)) (map fst t) ! n"
    using n l by simp
qed

lemma dom_table_view: "dom (table_view t) = set (map fst t)"
proof -
  have "dom (table_view t) = dom (map_of t)"
    by (auto simp: table_view_def dom_def)
  then show ?thesis by (simp add: dom_map_of_conv_image_fst)
qed

lemma rendered_rows:
  assumes "table_wf (quantity_table p)"
  shows "\<exists>d. generate_quantity_table_data p = Inr d \<and>
           image_mset row_content (mset (table_data d)) =
             rows_of_view (table_view (quantity_table p)) \<and>
           sorted (map row_element_type (table_data d))"
proof -
  let ?t = "quantity_table p"
  from generate_wf [OF assms] obtain rows d where
    r: "list_all2 (\<lambda>kq row. make_row (fst kq) (snd kq) = Inr row) ?t rows"
    and g: "generate_quantity_table_data p = Inr d"
    and d: "table_data d = sort_key row_element_type rows"
    by force
  have "image_mset row_content (mset (table_data d)) = mset (map row_content rows)"
    by (simp add: d)
  also have "\<dots> = mset (map (row_of_view (table_view ?t)) (map fst ?t))"
    by (simp only: row_contents_of_table [OF assms r])
  also have "\<dots> = image_mset (row_of_view (table_view ?t)) (mset (map fst ?t))"
    by (simp only: mset_map)
  also have "mset (map fst ?t) = mset_set (dom (table_view ?t))"
  proof -
    have "distinct (map fst ?t)" using assms by (simp add: table_wf_def)
    then have "mset_set (set (map fst ?t)) = mset (map fst ?t)" by (rule mset_set_set)
    then show ?thesis by (simp only: dom_table_view)
  qed
  finally have "image_mset row_content (mset (table_data d)) = rows_of_view (table_view ?t)"
    by (simp add: rows_of_view_def)
  moreover have "sorted (map row_element_type (table_data d))"
    by (simp add: d)
  ultimately show ?thesis using g by blast
qed

section \<open>The pipeline\<close>

lemma find_closest_level_cong:
  "levels_data p' = levels_data p \<Longrightarrow> find_closest_level p' z = find_closest_level p z"
  by (simp add: find_closest_level_def)

lemma level_from_placement_cong:
  "levels_data p' = levels_data p \<Longrightarrow> level_from_placement p' e = level_from_placement p e"
  by (simp add: level_from_placement_def find_closest_level_cong [of p' p]
      split: option.splits sum.splits)

lemma element_step_cong:
  assumes "levels_data p' = levels_data p"
  shows "element_step fs p' e = element_step fs p e"
proof -
  have h: "level_from_placement p' e = level_from_placement p e"
    by (rule level_from_placement_cong [OF assms])
  show ?thesis
    unfolding element_step_def get_element_level_def h by (rule refl)
qed

lemma process_single_element_processor:
  "snd (process_single_element fs e p) =
     update_quantity_table (fst (element_step fs p e)) (snd (element_step fs p e)) p"
  by (simp add: process_single_element_def element_step_def Let_def)

lemma accumulate_Cons:
  "accumulate (st # steps) p = accumulate steps (update_quantity_table (fst st) (snd st) p)"
  by (simp add: accumulate_def)

lemma process_loop_processor:
  "snd (process_loop fs els acc p) = accumulate (map (element_step fs p) els) p"
proof (induction els arbitrary: acc p)
  case Nil
  show ?case by (simp add: accumulate_def)
next
  case (Cons e els)
  obtain info p' where s: "process_single_element fs e p = (info, p')"
    by (cases "process_single_element fs e p")
  then have p': "p' = update_quantity_table (fst (element_step fs p e)) (snd (element_step fs p e)) p"
    using process_single_element_processor [of fs e p] by simp
  then have "levels_data p' = levels_data p" by simp
  then have m: "map (element_step fs p') els = map (element_step fs p) els"
    using element_step_cong [of p' p fs] by simp
  have "snd (process_loop fs (e # els) acc p) = snd (process_loop fs els (acc @ [info]) p')"
    by (simp add: s)
  also have "\<dots> = accumulate (map (element_step fs p') els) p'"
    by (rule Cons.IH)
  also have "\<dots> = accumulate (map (element_step fs p) els) p'"
    by (simp only: m)
  also have "\<dots> = accumulate (map (element_step fs p) (e # els)) p"
    by (simp only: list.map accumulate_Cons p')
  finally show ?case .
qed

lemma process_ifc_file_table:
  "\<exists>r. process_ifc_file fs f = Inr r \<and>
       generate_quantity_table_data
         (accumulate
            (map (element_step fs (snd (get_building_levels f init_processor)))
               (relevant_elements f))
            (snd (get_building_levels f init_processor))) =
       Inr (result_quantity_table r)"
proof -
  let ?p1 = "snd (get_building_levels f init_processor)"
  let ?p2 = "accumulate (map (element_step fs ?p1) (relevant_elements f)) ?p1"
  have w: "table_wf (quantity_table ?p2)"
    by (rule table_wf_accumulate) (simp add: table_wf_init)
  from generate_wf [OF w] obtain d where d: "generate_quantity_table_data ?p2 = Inr d"
    by blast
  have "snd (process_elements fs f ?p1) = ?p2"
    by (simp add: process_elements_def process_loop_processor)
  then show ?thesis
    using d by (auto simp: process_ifc_file_def split: prod.splits)
qed

lemma get_building_levels_storeys:
  "by_type_IfcBuildingStorey f' = by_type_IfcBuildingStorey f \<Longrightarrow>
   get_building_levels f' p = get_building_levels f p"
  by (simp add: get_building_levels_def)

lemma relevant_elements_mset:
  "mset (by_type_IfcProduct f') = mset (by_type_IfcProduct f) \<Longrightarrow>
   mset (relevant_elements f') = mset (relevant_elements f)"
  by (simp add: relevant_elements_def)

text \<open>
  Claim C8.  A run of the processing pipeline starts from a fresh processor, never fails,
  and its quantity table is sorted by \<open>element_type\<close>.  Two runs over the same storeys and
  the same products give tables with the same rows (a row's \<open>level_quantities\<close> read as a
  mapping), in whatever order the products are enumerated; when the products are
  enumerated in the same order the two quantity tables are identical.
\<close>

theorem C8_quantity_table_deterministic:
  assumes "mset (by_type_IfcProduct f') = mset (by_type_IfcProduct f)"
    and "by_type_IfcBuildingStorey f' = by_type_IfcBuildingStorey f"
  shows "\<exists>r r'. process_ifc_file float_str f = Inr r \<and> process_ifc_file float_str f' = Inr r' \<and>
           image_mset row_content (mset (table_data (result_quantity_table r'))) =
             image_mset row_content (mset (table_data (result_quantity_table r))) \<and>
           sorted (map row_element_type (table_data (result_quantity_table r))) \<and>
           sorted (map row_element_type (table_data (result_quantity_table r'))) \<and>
           (by_type_IfcProduct f' = by_type_IfcProduct f \<longrightarrow>
              result_quantity_table r' = result_quantity_table r)"
proof -
  let ?p1 = "snd (get_building_levels f init_processor)"
  let ?steps = "map (element_step float_str ?p1) (relevant_elements f)"
  let ?steps' = "map (element_step float_str ?p1) (relevant_elements f')"
  have l: "snd (get_building_levels f' init_processor) = ?p1"
    by (simp only: get_building_levels_storeys [OF assms(2)])
  from process_ifc_file_table [of float_str f] obtain r where
    r: "process_ifc_file float_str f = Inr r"
      "generate_quantity_table_data (accumulate ?steps ?p1) = Inr (result_quantity_table r)"
    by blast
  from process_ifc_file_table [of float_str f'] obtain r' where
    r': "process_ifc_file float_str f' = Inr r'"
      "generate_quantity_table_data (accumulate ?steps' ?p1) = Inr (result_quantity_table r')"
    unfolding l by blast
  have w: "table_wf (quantity_table (accumulate ?steps ?p1))"
    by (rule table_wf_accumulate) (simp add: table_wf_init)
  have w': "table_wf (quantity_table (accumulate ?steps' ?p1))"
    by (rule table_wf_accumulate) (simp add: table_wf_init)
  have m: "mset ?steps' = mset ?steps"
    using relevant_elements_mset [OF assms(1)] by (simp only: mset_map)
  have v: "table_view (quantity_table (accumulate ?steps' ?p1)) =
           table_view (quantity_table (accumulate ?steps ?p1))"
    by (rule table_view_accumulate_mset [OF m])
  from rendered_rows [OF w] r(2) have
    a: "image_mset row_content (mset (table_data (result_quantity_table r))) =
          rows_of_view (table_view (quantity_table (accumulate ?steps ?p1)))"
    and s: "sorted (map row_element_type (table_data (result_quantity_table r)))"
    by auto
  from rendered_rows [OF w'] r'(2) have
    a': "image_mset row_content (mset (table_data (result_quantity_table r'))) =
          rows_of_view (table_view (quantity_table (accumulate ?steps' ?p1)))"
    and s': "sorted (map row_element_type (table_data (result_quantity_table r')))"
    by auto
  have e: "by_type_IfcProduct f' = by_type_IfcProduct f \<longrightarrow>
              result_quantity_table r' = result_quantity_table r"
  proof
    assume "by_type_IfcProduct f' = by_type_IfcProduct f"
    then have "relevant_elements f' = relevant_elements f" by (simp add: relevant_elements_def)
    then show "result_quantity_table r' = result_quantity_table r" using r(2) r'(2) by simp
  qed
  have "image_mset row_content (mset (table_data (result_quantity_table r'))) =
        image_mset row_content (mset (table_data (result_quantity_table r)))"
    by (simp only: a a' v)
  with r(1) r'(1) s s' e show ?thesis by blast
qed

lemma example_model_table:
  "map_sum id (table_data \<circ> result_quantity_table)
     (process_ifc_file example_float_str
        (example_model [example_wall 21 ''W1'', example_wall 22 ''W2'', example_door])) =
   Inr [\<lparr>row_element_key = ''IfcDoor_default'', row_element_type = ''IfcDoor'',
         unit_of_measure = ''units'', total_quantity = 1, level_quantities = [(11, 1)]\<rparr>,
        \<lparr>row_element_key = ''IfcWall_default'', row_element_type = ''IfcWall'',
         unit_of_measure = m2, total_quantity = 2, level_quantities = [(10, 2)]\<rparr>]"
  by code_simp

lemma example_model_reordered_table:
  "map_sum id (table_data \<circ> result_quantity_table)
     (process_ifc_file example_float_str
        (example_model [example_door, example_wall 22 ''W2'', example_wall 21 ''W1''])) =
   Inr [\<lparr>row_element_key = ''IfcDoor_default'', row_element_type = ''IfcDoor'',
         unit_of_measure = ''units'', total_quantity = 1, level_quantities = [(11, 1)]\<rparr>,
        \<lparr>row_element_key = ''IfcWall_default'', row_element_type = ''IfcWall'',
         unit_of_measure = m2, total_quantity = 2, level_quantities = [(10, 2)]\<rparr>]"
  by code_simp

theorem C8_quantity_table_deterministic_witness:
  "mset (by_type_IfcProduct
      (example_model [example_door, example_wall 22 ''W2'', example_wall 21 ''W1''])) =
   mset (by_type_IfcProduct
      (example_model [example_wall 21 ''W1'', example_wall 22 ''W2'', example_door])) \<and>
   by_type_IfcBuildingStorey
      (example_model [example_door, example_wall 22 ''W2'', example_wall 21 ''W1'']) =
   by_type_IfcBuildingStorey
      (example_model [example_wall 21 ''W1'', example_wall 22 ''W2'', example_door]) \<and>
   (\<exists>r r'. process_ifc_file example_float_str
              (example_model [example_wall 21 ''W1'', example_wall 22 ''W2'', example_door]) = Inr r \<and>
           process_ifc_file example_float_str
              (example_model [example_door, example_wall 22 ''W2'', example_wall 21 ''W1'']) = Inr r' \<and>
           image_mset row_content (mset (table_data (result_quantity_table r'))) =
             image_mset row_content (mset (table_data (result_quantity_table r))) \<and>
           map row_element_key (table_data (result_quantity_table r)) =
             [''IfcDoor_default'', ''IfcWall_default''] \<and>
           map total_quantity (table_data (result_quantity_table r)) = [1, 2])"
proof -
  let ?f = "example_model [example_wall 21 ''W1'', example_wall 22 ''W2'', example_door]"
  let ?f' = "example_model [example_door, example_wall 22 ''W2'', example_wall 21 ''W1'']"
  have h1: "mset (by_type_IfcProduct ?f') = mset (by_type_IfcProduct ?f)"
    by (simp add: example_model_def add_mset_commute)
  have h2: "by_type_IfcBuildingStorey ?f' = by_type_IfcBuildingStorey ?f"
    by (simp add: example_model_def)
  from C8_quantity_table_deterministic [OF h1 h2, of example_float_str] obtain r r' where
    r: "process_ifc_file example_float_str ?f = Inr r"
       "process_ifc_file example_float_str ?f' = Inr r'"
       "image_mset row_content (mset (table_data (result_quantity_table r'))) =
             image_mset row_content (mset (table_data (result_quantity_table r)))"
    by blast
  from example_model_table r(1) have
    t: "map row_element_key (table_data (result_quantity_table r)) =
             [''IfcDoor_default'', ''IfcWall_default'']"
    "map total_quantity (table_data (result_quantity_table r)) = [1, 2]"
    by simp_all
  have "\<exists>r r'. process_ifc_file example_float_str ?f = Inr r \<and>
           process_ifc_file example_float_str ?f' = Inr r' \<and>
           image_mset row_content (mset (table_data (result_quantity_table r'))) =
             image_mset row_content (mset (table_data (result_quantity_table r))) \<and>
           map row_element_key (table_data (result_quantity_table r)) =
             [''IfcDoor_default'', ''IfcWall_default''] \<and>
           map total_quantity (table_data (result_quantity_table r)) = [1, 2]"
    by (rule exI [of _ r], rule exI [of _ r']) (simp only: r t simp_thms)
  then show ?thesis
    by (simp only: h1 h2 simp_thms)
qed

section \<open>The validity gate\<close>





























lemma np_le_not_NaN: "np_le (Fin t) NaN = False"
  by simp













end
